theory Spec2Isabelle
  imports Main "HOL-Library.Word" "HOL-Library.Sublist"
begin

section \<open>Python values and errors\<close>

text \<open>
  Exceptions raised by the modelled code are values of \<open>error\<close>; a computation that may
  raise returns \<open>error + 'a\<close> with \<open>Inl\<close> for the exception.
\<close>

datatype error =
    KeyError
  | ValueError
  | TypeError
  | AssertionError
  | ImportError
  | AttributeError
  | IndexError

text \<open>
  A class object, as far as \<^verbatim>\<open>json_conversion.py\<close> looks at it: its identity
  (\<^verbatim>\<open>is\<close> compares class objects), \<^verbatim>\<open>__module__\<close>, \<^verbatim>\<open>__qualname__\<close>, whether it
  is a subclass of \<^verbatim>\<open>JSONConvertible\<close>, what \<^verbatim>\<open>inspect.isabstract\<close> says of it, its
  \<^verbatim>\<open>auto_register\<close> class attribute, its \<^verbatim>\<open>type_name\<close> class attribute when it has
  one (own or inherited), and whether it overrides the \<^verbatim>\<open>from_json\<close> class method.
\<close>

record pycls =
  cls_id :: nat
  cls_module :: string
  cls_qualname :: string
  cls_convertible :: bool
  cls_abstract :: bool
  cls_auto_register :: bool
  cls_type_name :: "string option"
  cls_custom_from_json :: bool

text \<open>
  A code object: \<^verbatim>\<open>co_flags\<close> (bit 4, value 16, is \<^verbatim>\<open>inspect.CO_NESTED\<close>),
  \<^verbatim>\<open>co_name\<close>, \<^verbatim>\<open>co_qualname\<close>, \<^verbatim>\<open>co_freevars\<close> (the names of the variables that
  the code takes from enclosing scopes), and the rest of it as an uninterpreted payload.
\<close>

record pycode =
  co_flags :: nat
  co_name :: string
  co_qualname :: string
  co_freevars :: "string list"
  co_payload :: string

text \<open>
  The dict a function object uses as its global namespace: the namespace of a module, given
  by the module's name, or a dict created for the purpose with the given entries' names.
\<close>

datatype globals_ref = ModuleGlobals string | FreshGlobals "string list"

text \<open>
  Python values. A float is its IEEE-754 bit pattern; it is only ever passed along. A
  string is the list of its characters, each a code point below 256.
  \<open>PTuple\<close>, \<open>PList\<close> and \<open>PDict\<close> are instances of exactly \<^verbatim>\<open>tuple\<close>, \<^verbatim>\<open>list\<close>
  and \<^verbatim>\<open>dict\<close>; a dict is the list of its items in insertion order, with any hashable
  value as a key. \<open>PType c\<close> is the class object \<open>c\<close>; \<open>PBuiltin name\<close> a builtin
  function; \<open>PFunction module qualname name code defaults globals\<close> a plain function
  (\<^verbatim>\<open>__defaults__\<close> is \<^verbatim>\<open>None\<close> or a tuple); \<open>PMethod module qualname self\<close> a bound
  method; \<open>PModule name\<close> a module; \<open>PObject attrs\<close> an instance of \<^verbatim>\<open>object\<close> or of
  some builtin class that none of the checks below recognises. \<open>PInst c b\<close> is an
  instance of the user-defined class \<open>c\<close>, where \<open>b\<close> is the part of the instance
  that belongs to its builtin base class: \<open>PInst c (PTuple xs)\<close> is an instance of a
  subclass \<open>c\<close> of \<^verbatim>\<open>tuple\<close>.
\<close>

datatype pyval =
    PNone
  | PBool bool
  | PInt int
  | PFloat "64 word"
  | PStr string
  | PTuple "pyval list"
  | PList "pyval list"
  | PDict "(pyval \<times> pyval) list"
  | PType pycls
  | PBuiltin string
  | PFunction string string string pycode pyval globals_ref
  | PMethod string string pyval
  | PModule string
  | PObject "(string \<times> pyval) list"
  | PInst pycls pyval

type_synonym kwargs = "(string \<times> pyval) list"

text \<open>The builtin part of a value: what \<^verbatim>\<open>isinstance\<close> against a builtin class looks at.\<close>

fun base_of :: "pyval \<Rightarrow> pyval" where
  "base_of (PInst c b) = b"
| "base_of v = v"

definition isinstance_primitive :: "pyval \<Rightarrow> bool" where
  "isinstance_primitive v =
     (case base_of v of
        PNone \<Rightarrow> True | PBool _ \<Rightarrow> True | PInt _ \<Rightarrow> True | PFloat _ \<Rightarrow> True
      | PStr _ \<Rightarrow> True | _ \<Rightarrow> False)"

fun isinstance_convertible :: "pyval \<Rightarrow> bool" where
  "isinstance_convertible (PInst c b) = cls_convertible c"
| "isinstance_convertible v = False"

definition isinstance_tuple :: "pyval \<Rightarrow> bool" where
  "isinstance_tuple v = (case base_of v of PTuple _ \<Rightarrow> True | _ \<Rightarrow> False)"

definition isinstance_list :: "pyval \<Rightarrow> bool" where
  "isinstance_list v = (case base_of v of PList _ \<Rightarrow> True | _ \<Rightarrow> False)"

definition isinstance_dict :: "pyval \<Rightarrow> bool" where
  "isinstance_dict v = (case base_of v of PDict _ \<Rightarrow> True | _ \<Rightarrow> False)"

definition isinstance_type :: "pyval \<Rightarrow> bool" where
  "isinstance_type v = (case base_of v of PType _ \<Rightarrow> True | _ \<Rightarrow> False)"

definition isbuiltin :: "pyval \<Rightarrow> bool" where
  "isbuiltin v = (case v of PBuiltin _ \<Rightarrow> True | _ \<Rightarrow> False)"

definition isfunction :: "pyval \<Rightarrow> bool" where
  "isfunction v = (case v of PFunction _ _ _ _ _ _ \<Rightarrow> True | _ \<Rightarrow> False)"

definition ismethod :: "pyval \<Rightarrow> bool" where
  "ismethod v = (case v of PMethod _ _ _ \<Rightarrow> True | _ \<Rightarrow> False)"

text \<open>The elements of a tuple or list, and the items of a dict, in iteration order.\<close>

definition elements :: "pyval \<Rightarrow> pyval list" where
  "elements v = (case base_of v of PTuple xs \<Rightarrow> xs | PList xs \<Rightarrow> xs | _ \<Rightarrow> [])"

definition dict_items :: "pyval \<Rightarrow> (pyval \<times> pyval) list" where
  "dict_items v = (case base_of v of PDict kvs \<Rightarrow> kvs | _ \<Rightarrow> [])"

section \<open>The type registry\<close>

text \<open>
  \<^verbatim>\<open>_TypeRegistry._type_to_cls_map\<close> is a Python dict, which keeps insertion order: an
  association list with one entry per key. Assigning to an existing key keeps its
  position; a new key goes to the end.
\<close>

type_synonym registry = "(string \<times> pycls) list"

fun dict_set :: "'k \<Rightarrow> 'v \<Rightarrow> ('k \<times> 'v) list \<Rightarrow> ('k \<times> 'v) list" where
  "dict_set k v [] = [(k, v)]"
| "dict_set k v ((k', v') # kvs) =
     (if k' = k then (k', v) # kvs else (k', v') # dict_set k v kvs)"

definition dict_contains :: "'k \<Rightarrow> ('k \<times> 'v) list \<Rightarrow> bool" where
  "dict_contains k d = (map_of d k \<noteq> None)"

definition is_registered :: "registry \<Rightarrow> string \<Rightarrow> bool" where
  "is_registered reg type_name = dict_contains type_name reg"

definition class_from_typename :: "registry \<Rightarrow> string \<Rightarrow> pycls option" where
  "class_from_typename reg type_name = map_of reg type_name"

definition iteritems :: "registry \<Rightarrow> (string \<times> pycls) list" where
  "iteritems reg = reg"

text \<open>
  \<^verbatim>\<open>register\<close> returns the outcome together with the registry after the call, so that
  a raise is seen to leave the registry as it was.
\<close>

definition register :: "registry \<Rightarrow> string \<Rightarrow> pycls \<Rightarrow> bool \<Rightarrow> (error + unit) \<times> registry" where
  "register reg type_name cls override_existing =
     (if dict_contains type_name reg \<and> \<not> override_existing
      then (Inl KeyError, reg)
      else (Inr (), dict_set type_name cls reg))"

definition type_name_of :: "string \<Rightarrow> string \<Rightarrow> string" where
  "type_name_of module qualname = module @ ''.'' @ qualname"

definition cls_type_id :: "pycls \<Rightarrow> string" where
  "cls_type_id c = type_name_of (cls_module c) (cls_qualname c)"

text \<open>
  \<^verbatim>\<open>JSONConvertible.__init_subclass__\<close>, run when a subclass \<open>cls\<close> is defined:
  \<^verbatim>\<open>getattr(cls, 'type_name', _type_name(cls))\<close> is the class attribute when present.
\<close>

definition init_subclass :: "registry \<Rightarrow> pycls \<Rightarrow> (error + unit) \<times> registry" where
  "init_subclass reg cls =
     (if \<not> cls_abstract cls \<and> cls_auto_register cls
      then register reg
             (case cls_type_name cls of Some n \<Rightarrow> n | None \<Rightarrow> cls_type_id cls)
             cls True
      else (Inr (), reg))"

section \<open>The environment of the module\<close>

text \<open>
  What \<^verbatim>\<open>json_conversion.py\<close> calls but does not define is a field of \<open>env\<close>:
  \<^verbatim>\<open>importlib.import_module\<close> and \<^verbatim>\<open>getattr\<close>; the \<^verbatim>\<open>to_json\<close> method of a
  convertible object (\<^verbatim>\<open>value.to_json(**kwargs)\<close>); the class attribute
  \<^verbatim>\<open>JSONConvertible.TYPE_CONVERTER\<close>, which is \<^verbatim>\<open>None\<close> or a function from a type to
  \<^verbatim>\<open>None\<close> or a converter; \<^verbatim>\<open>base64.encodebytes(marshal.dumps(code)).decode('utf-8')\<close>
  and its inverse \<^verbatim>\<open>marshal.loads(base64.decodebytes(s.encode('utf-8')))\<close>; the
  contents of \<^verbatim>\<open>JSONConvertible._TYPE_REGISTRY\<close>; the \<^verbatim>\<open>from_json\<close> class method of a
  class that overrides it; and the call \<^verbatim>\<open>cls(**init_args)\<close> of a class with keyword
  arguments. Each is a function of its arguments that returns or raises, and leaves the
  symbol cache as it is.
\<close>

record env =
  import_module :: "string \<Rightarrow> error + pyval"
  getattr :: "pyval \<Rightarrow> string \<Rightarrow> error + pyval"
  obj_to_json :: "pyval \<Rightarrow> kwargs \<Rightarrow> error + pyval"
  type_converter :: "(pyval \<Rightarrow> error + (pyval \<Rightarrow> error + pyval) option) option"
  encode_code :: "pycode \<Rightarrow> string"
  decode_code :: "string \<Rightarrow> error + pycode"
  type_registry :: registry
  custom_from_json :: "pycls \<Rightarrow> pyval \<Rightarrow> error + pyval"
  construct :: "pycls \<Rightarrow> (string \<times> pyval) list \<Rightarrow> error + pyval"

abbreviation TYPE_NAME_KEY :: string where
  "TYPE_NAME_KEY \<equiv> ''_type''"

abbreviation TUPLE_MARKER :: string where
  "TUPLE_MARKER \<equiv> ''__tuple__''"

abbreviation THIS_MODULE :: string where
  "THIS_MODULE \<equiv> ''pyglove.core.object_utils.json_conversion''"

section \<open>Symbol resolution\<close>

text \<open>
  \<^verbatim>\<open>_LOADED_SYMBOLS\<close> is a module-level dict that \<^verbatim>\<open>_load_symbol\<close> reads and writes:
  a computation takes the cache and returns its outcome with the cache after it.
\<close>

type_synonym cache = "(string \<times> pyval) list"

type_synonym 'a action = "cache \<Rightarrow> (error + 'a) \<times> cache"

text \<open>\<^verbatim>\<open>s.split('.')\<close>: the segments between the dots, at least one.\<close>

fun split_dot :: "string \<Rightarrow> string list" where
  "split_dot [] = [[]]"
| "split_dot (c # cs) =
     (if c = CHR ''.'' then [] # split_dot cs
      else (case split_dot cs of w # ws \<Rightarrow> (c # w) # ws | [] \<Rightarrow> [[c]]))"

text \<open>\<^verbatim>\<open>'.'.join(names)\<close>.\<close>

fun join_dot :: "string list \<Rightarrow> string" where
  "join_dot [] = []"
| "join_dot [w] = w"
| "join_dot (w # ws) = w @ ''.'' @ join_dot ws"

text \<open>
  \<^verbatim>\<open>c.isupper()\<close> of one character, by its code point: the upper-case letters below
  256 are \<^verbatim>\<open>A\<close> to \<^verbatim>\<open>Z\<close> (65 to 90) and the capital letters of Latin-1 (192 to 214 and
  216 to 222).
\<close>

definition isupper :: "char \<Rightarrow> bool" where
  "isupper c =
     ((65 \<le> (of_char c :: nat) \<and> (of_char c :: nat) \<le> 90)
      \<or> (192 \<le> (of_char c :: nat) \<and> (of_char c :: nat) \<le> 214)
      \<or> (216 \<le> (of_char c :: nat) \<and> (of_char c :: nat) \<le> 222))"

text \<open>
  The loop over \<^verbatim>\<open>enumerate(maybe_modules)\<close>, from index \<open>i\<close>: the index of the first
  name that starts with a capital; \<^verbatim>\<open>name[0]\<close> of an empty name raises \<^verbatim>\<open>IndexError\<close>.
\<close>

fun find_module_end :: "nat \<Rightarrow> string list \<Rightarrow> error + nat option" where
  "find_module_end i [] = Inr None"
| "find_module_end i (name # rest) =
     (case name of
        [] \<Rightarrow> Inl IndexError
      | c # _ \<Rightarrow> if isupper c then Inr (Some i) else find_module_end (Suc i) rest)"

text \<open>\<^verbatim>\<open>for name in names: parent = getattr(parent, name)\<close>.\<close>

fun lookup_chain :: "env \<Rightarrow> pyval \<Rightarrow> string list \<Rightarrow> error + pyval" where
  "lookup_chain env parent [] = Inr parent"
| "lookup_chain env parent (name # names) =
     (case getattr env parent name of
        Inl e \<Rightarrow> Inl e
      | Inr p \<Rightarrow> lookup_chain env p names)"

text \<open>
  \<^verbatim>\<open>_load_symbol\<close>: a cached symbol other than \<^verbatim>\<open>None\<close> is returned as it is; otherwise
  the name is resolved and, when that succeeds, stored in the cache.
\<close>

definition load_symbol :: "env \<Rightarrow> string \<Rightarrow> pyval action" where
  "load_symbol env type_name loaded =
     (let symbol = (case map_of loaded type_name of Some cached \<Rightarrow> cached | None \<Rightarrow> PNone) in
      if symbol \<noteq> PNone then (Inr symbol, loaded)
      else
        let maybe_modules = butlast (split_dot type_name);
            symbol_name = last (split_dot type_name)
        in case find_module_end 0 maybe_modules of
             Inl e \<Rightarrow> (Inl e, loaded)
           | Inr module_end_pos \<Rightarrow>
               let module_name = (case module_end_pos of
                                    None \<Rightarrow> join_dot maybe_modules
                                  | Some p \<Rightarrow> join_dot (take p maybe_modules));
                   parent_symbols = (case module_end_pos of
                                       None \<Rightarrow> []
                                     | Some p \<Rightarrow> drop p maybe_modules)
               in (case import_module env module_name of
                     Inl e \<Rightarrow> (Inl e, loaded)
                   | Inr module \<Rightarrow>
                       (case lookup_chain env module parent_symbols of
                          Inl e \<Rightarrow> (Inl e, loaded)
                        | Inr parent \<Rightarrow>
                            (case getattr env parent symbol_name of
                               Inl e \<Rightarrow> (Inl e, loaded)
                             | Inr found \<Rightarrow> (Inr found, dict_set type_name found loaded)))))"

section \<open>Serialization\<close>

text \<open>
  A dict display or comprehension inserts its items one after the other; on a dict's own
  items, whose keys are distinct, that gives the items back.
\<close>

definition dict_build :: "('k \<times> 'v) list \<Rightarrow> ('k \<times> 'v) list" where
  "dict_build kvs = foldl (\<lambda>d (k, v). dict_set k v d) [] kvs"

text \<open>\<^verbatim>\<open>type(value)\<close>; the builtin classes are class objects with identity 0.\<close>

definition builtin_cls :: "string \<Rightarrow> pycls" where
  "builtin_cls name =
     \<lparr>cls_id = 0, cls_module = ''builtins'', cls_qualname = name, cls_convertible = False,
      cls_abstract = False, cls_auto_register = False, cls_type_name = None,
      cls_custom_from_json = False\<rparr>"

fun type_of :: "pyval \<Rightarrow> pyval" where
  "type_of PNone = PType (builtin_cls ''NoneType'')"
| "type_of (PBool _) = PType (builtin_cls ''bool'')"
| "type_of (PInt _) = PType (builtin_cls ''int'')"
| "type_of (PFloat _) = PType (builtin_cls ''float'')"
| "type_of (PStr _) = PType (builtin_cls ''str'')"
| "type_of (PTuple _) = PType (builtin_cls ''tuple'')"
| "type_of (PList _) = PType (builtin_cls ''list'')"
| "type_of (PDict _) = PType (builtin_cls ''dict'')"
| "type_of (PType _) = PType (builtin_cls ''type'')"
| "type_of (PBuiltin _) = PType (builtin_cls ''builtin_function_or_method'')"
| "type_of (PFunction _ _ _ _ _ _) = PType (builtin_cls ''function'')"
| "type_of (PMethod _ _ _) = PType (builtin_cls ''method'')"
| "type_of (PModule _) = PType (builtin_cls ''module'')"
| "type_of (PObject _) = PType (builtin_cls ''object'')"
| "type_of (PInst c _) = PType c"

text \<open>
  \<^verbatim>\<open>to_json\<close> calls itself on whatever the converter of \<^verbatim>\<open>TYPE_CONVERTER\<close> returns, so
  it need not return. The model counts the nesting of calls: \<open>to_json env n\<close> is a call
  that may nest \<open>n\<close> deep, and \<open>None\<close> means that the call needed more.
\<close>

type_synonym 'a fuel_action = "cache \<Rightarrow> ((error + 'a) \<times> cache) option"

text \<open>A list comprehension whose element expression is \<open>f\<close>: left to right, up to the first raise.\<close>

fun map_fuel :: "('a \<Rightarrow> 'b fuel_action) \<Rightarrow> 'a list \<Rightarrow> 'b list fuel_action" where
  "map_fuel f [] s = Some (Inr [], s)"
| "map_fuel f (x # xs) s =
     (case f x s of
        None \<Rightarrow> None
      | Some (Inl e, s') \<Rightarrow> Some (Inl e, s')
      | Some (Inr y, s') \<Rightarrow>
          (case map_fuel f xs s' of
             None \<Rightarrow> None
           | Some (Inl e, s'') \<Rightarrow> Some (Inl e, s'')
           | Some (Inr ys, s'') \<Rightarrow> Some (Inr (y # ys), s'')))"

text \<open>\<^verbatim>\<open>_type_to_json\<close>: any exception of \<^verbatim>\<open>_load_symbol\<close> is swallowed.\<close>

definition type_to_json :: "env \<Rightarrow> pyval \<Rightarrow> pyval action" where
  "type_to_json env t loaded =
     (case base_of t of
        PType c \<Rightarrow>
          (case load_symbol env (cls_type_id c) loaded of
             (Inr found, loaded') \<Rightarrow>
               if found = t
               then (Inr (PDict (dict_build
                       [(PStr TYPE_NAME_KEY, PStr ''type''),
                        (PStr ''name'', PStr (cls_type_id c))])), loaded')
               else (Inl ValueError, loaded')
           | (Inl e, loaded') \<Rightarrow> (Inl ValueError, loaded'))
      | _ \<Rightarrow> (Inl AttributeError, loaded))"

definition builtin_function_to_json :: "pyval \<Rightarrow> error + pyval" where
  "builtin_function_to_json f =
     (case f of
        PBuiltin name \<Rightarrow>
          Inr (PDict (dict_build
            [(PStr TYPE_NAME_KEY, PStr ''function''),
             (PStr ''name'', PStr (''builtins.'' @ name))]))
      | _ \<Rightarrow> Inl AttributeError)"

definition method_to_json :: "pyval \<Rightarrow> error + pyval" where
  "method_to_json f =
     (case f of
        PMethod module qualname self \<Rightarrow>
          if isinstance_type self
          then Inr (PDict (dict_build
                 [(PStr TYPE_NAME_KEY, PStr ''method''),
                  (PStr ''name'', PStr (type_name_of module qualname))]))
          else Inl ValueError
      | _ \<Rightarrow> Inl AttributeError)"

text \<open>\<^verbatim>\<open>[JSONConvertible.TUPLE_MARKER] + xs\<close>: list concatenation needs a list on the right.\<close>

definition prepend_marker :: "pyval \<Rightarrow> error + pyval" where
  "prepend_marker j =
     (case j of
        PList js \<Rightarrow> Inr (PList (PStr TUPLE_MARKER # js))
      | _ \<Rightarrow> Inl TypeError)"

text \<open>The test of \<^verbatim>\<open>_function_to_json\<close>: a lambda, or \<^verbatim>\<open>co_flags & inspect.CO_NESTED\<close>.\<close>

definition is_local_function :: "string \<Rightarrow> pycode \<Rightarrow> bool" where
  "is_local_function name code = (name = ''<lambda>'' \<or> co_flags code div 16 mod 2 = 1)"

fun to_json :: "env \<Rightarrow> nat \<Rightarrow> pyval \<Rightarrow> kwargs \<Rightarrow> pyval fuel_action" where
  "to_json env 0 value kw s = None"
| "to_json env (Suc n) value kw s =
     (if isinstance_primitive value then Some (Inr value, s)
      else if isinstance_convertible value then Some (obj_to_json env value kw, s)
      else if isinstance_tuple value then
        (case to_json env n (PList (elements value)) kw s of
           None \<Rightarrow> None
         | Some (Inl e, s') \<Rightarrow> Some (Inl e, s')
         | Some (Inr j, s') \<Rightarrow> Some (prepend_marker j, s'))
      else if isinstance_list value then
        (case map_fuel (\<lambda>item. to_json env n item kw) (elements value) s of
           None \<Rightarrow> None
         | Some (Inl e, s') \<Rightarrow> Some (Inl e, s')
         | Some (Inr js, s') \<Rightarrow> Some (Inr (PList js), s'))
      else if isinstance_dict value then
        (case map_fuel (\<lambda>kv. to_json env n (snd kv) kw) (dict_items value) s of
           None \<Rightarrow> None
         | Some (Inl e, s') \<Rightarrow> Some (Inl e, s')
         | Some (Inr js, s') \<Rightarrow>
             Some (Inr (PDict (dict_build (zip (map fst (dict_items value)) js))), s'))
      else if isinstance_type value then Some (type_to_json env value s)
      else if isbuiltin value then Some (builtin_function_to_json value, s)
      else if isfunction value then
        (case value of
           PFunction module qualname name code defaults globals \<Rightarrow>
             if is_local_function name code then
               (case to_json env n defaults [] s of
                  None \<Rightarrow> None
                | Some (Inl e, s') \<Rightarrow> Some (Inl e, s')
                | Some (Inr d, s') \<Rightarrow>
                    Some (Inr (PDict (dict_build
                      [(PStr TYPE_NAME_KEY, PStr ''function''),
                       (PStr ''name'', PStr (type_name_of module qualname)),
                       (PStr ''code'', PStr (encode_code env code)),
                       (PStr ''defaults'', d)])), s'))
             else
               Some (Inr (PDict (dict_build
                 [(PStr TYPE_NAME_KEY, PStr ''function''),
                  (PStr ''name'', PStr (type_name_of module qualname))])), s)
         | _ \<Rightarrow> Some (Inl AttributeError, s))
      else if ismethod value then Some (method_to_json value, s)
      else
        (case type_converter env of
           None \<Rightarrow> Some (Inl ValueError, s)
         | Some hook \<Rightarrow>
             (case hook (type_of value) of
                Inl e \<Rightarrow> Some (Inl e, s)
              | Inr None \<Rightarrow> Some (Inl ValueError, s)
              | Inr (Some converter) \<Rightarrow>
                  (case converter value of
                     Inl e \<Rightarrow> Some (Inl e, s)
                   | Inr converted \<Rightarrow> to_json env n converted [] s))))"

section \<open>Deserialization\<close>

text \<open>A list comprehension over computations that always return: left to right, up to the first raise.\<close>

fun map_action :: "('a \<Rightarrow> 'b action) \<Rightarrow> 'a list \<Rightarrow> 'b list action" where
  "map_action f [] s = (Inr [], s)"
| "map_action f (x # xs) s =
     (case f x s of
        (Inl e, s') \<Rightarrow> (Inl e, s')
      | (Inr y, s') \<Rightarrow>
          (case map_action f xs s' of
             (Inl e, s'') \<Rightarrow> (Inl e, s'')
           | (Inr ys, s'') \<Rightarrow> (Inr (y # ys), s'')))"

lemma map_action_cong [fundef_cong]:
  "xs = ys \<Longrightarrow> s = t \<Longrightarrow> (\<And>x u. x \<in> set ys \<Longrightarrow> f x u = g x u)
   \<Longrightarrow> map_action f xs s = map_action g ys t"
proof (induction ys arbitrary: xs s t)
  case Nil
  then show ?case by simp
next
  case (Cons y ys)
  from Cons.prems have fg: "f y t = g y t" by simp
  have rest: "map_action f ys u = map_action g ys u" for u
    using Cons.IH [of ys u u] Cons.prems(3) by simp
  show ?case using Cons.prems(1,2) fg rest by (simp split: prod.splits sum.splits)
qed

text \<open>
  A dict key must be hashable: lists and dicts are not, a tuple is when its elements are.
\<close>

fun hashable :: "pyval \<Rightarrow> bool" where
  "hashable (PList _) = False"
| "hashable (PDict _) = False"
| "hashable (PTuple xs) = list_all hashable xs"
| "hashable (PInst c b) = hashable b"
| "hashable _ = True"

text \<open>
  \<^verbatim>\<open>_load_symbol\<close> applied to a value of any type: \<^verbatim>\<open>_LOADED_SYMBOLS.get\<close> raises
  \<^verbatim>\<open>TypeError\<close> on an unhashable key, and only a string has \<^verbatim>\<open>split\<close>.
\<close>

definition load_symbol_of :: "env \<Rightarrow> pyval \<Rightarrow> pyval action" where
  "load_symbol_of env name s =
     (case name of
        PStr type_name \<Rightarrow> load_symbol env type_name s
      | _ \<Rightarrow> if hashable name then (Inl AttributeError, s) else (Inl TypeError, s))"

definition type_from_json :: "env \<Rightarrow> pyval \<Rightarrow> pyval action" where
  "type_from_json env json_value s =
     (case map_of (dict_items json_value) (PStr ''name'') of
        None \<Rightarrow> (Inl KeyError, s)
      | Some name \<Rightarrow> load_symbol_of env name s)"

definition method_from_json :: "env \<Rightarrow> pyval \<Rightarrow> pyval action" where
  "method_from_json env json_value s =
     (case map_of (dict_items json_value) (PStr ''name'') of
        None \<Rightarrow> (Inl KeyError, s)
      | Some name \<Rightarrow> load_symbol_of env name s)"

text \<open>
  \<^verbatim>\<open>marshal.loads(base64.decodebytes(json_value['code'].encode('utf-8')))\<close>: only a
  string has \<^verbatim>\<open>encode\<close>.
\<close>

definition loads_code :: "env \<Rightarrow> pyval \<Rightarrow> error + pycode" where
  "loads_code env blob =
     (case blob of
        PStr text \<Rightarrow> decode_code env text
      | _ \<Rightarrow> Inl AttributeError)"

text \<open>
  \<^verbatim>\<open>types.FunctionType(code=code, globals=globals(), argdefs=defaults)\<close>, called in
  \<^verbatim>\<open>json_conversion.py\<close>: \<^verbatim>\<open>globals()\<close> is the namespace of that module, which also
  gives the new function its \<^verbatim>\<open>__module__\<close>; the names come from the code object.
  \<^verbatim>\<open>argdefs\<close> must be \<^verbatim>\<open>None\<close> or a tuple, and, no \<^verbatim>\<open>closure\<close> being passed, the code
  must have no free variables: the call raises \<^verbatim>\<open>TypeError\<close> otherwise.
\<close>

definition new_function :: "pycode \<Rightarrow> pyval \<Rightarrow> error + pyval" where
  "new_function code defaults =
     (if \<not> (defaults = PNone \<or> isinstance_tuple defaults) then Inl TypeError
      else if co_freevars code \<noteq> [] then Inl TypeError
      else Inr (PFunction THIS_MODULE (co_qualname code) (co_name code) code defaults
                  (ModuleGlobals THIS_MODULE)))"

text \<open>\<^verbatim>\<open>cls(**init_args)\<close>: the keys of \<^verbatim>\<open>init_args\<close> must be strings.\<close>

fun keyword_args :: "(pyval \<times> pyval) list \<Rightarrow> (string \<times> pyval) list option" where
  "keyword_args [] = Some []"
| "keyword_args ((k, v) # kvs) =
     (case k of
        PStr name \<Rightarrow> (case keyword_args kvs of None \<Rightarrow> None | Some rest \<Rightarrow> Some ((name, v) # rest))
      | _ \<Rightarrow> None)"

definition call_with_kwargs :: "env \<Rightarrow> pycls \<Rightarrow> (pyval \<times> pyval) list \<Rightarrow> error + pyval" where
  "call_with_kwargs env cls init_args =
     (case keyword_args init_args of
        None \<Rightarrow> Inl TypeError
      | Some args \<Rightarrow> construct env cls args)"

text \<open>\<^verbatim>\<open>JSONConvertible.class_from_typename\<close> applied to a value of any type.\<close>

definition class_of_typename :: "env \<Rightarrow> pyval \<Rightarrow> pycls option" where
  "class_of_typename env type_name =
     (case type_name of
        PStr name \<Rightarrow> class_from_typename (type_registry env) name
      | _ \<Rightarrow> None)"

lemma size_list_member: "x \<in> set xs \<Longrightarrow> size x < Suc (size_list size xs)"
  by (simp add: less_Suc_eq_le size_list_estimation')

lemma size_items_member:
  "(k, x) \<in> set kvs \<Longrightarrow> size x < Suc (size_list (size_prod size size) kvs)"
proof -
  assume mem: "(k, x) \<in> set kvs"
  have "size x \<le> size_prod size size (k, x)" by simp
  from size_list_estimation' [where f = "size_prod size size", OF mem this] show ?thesis by simp
qed

lemma size_elements: "x \<in> set (elements v) \<Longrightarrow> size x < size v"
proof (cases v)
  case (PInst c b)
  assume "x \<in> set (elements v)"
  with PInst show ?thesis
    by (cases b) (auto simp: elements_def dest: size_list_member)
qed (auto simp: elements_def dest: size_list_member)

lemma size_dict_items: "(k, x) \<in> set (dict_items v) \<Longrightarrow> size x < size v"
proof (cases v)
  case (PInst c b)
  assume "(k, x) \<in> set (dict_items v)"
  with PInst show ?thesis
    by (cases b) (auto simp: dict_items_def dest: size_items_member)
qed (auto simp: dict_items_def dest: size_items_member)

lemma size_dict_item: "kv \<in> set (dict_items v) \<Longrightarrow> size (snd kv) < size v"
  by (rule size_dict_items [of "fst kv"]) simp

lemma size_tl_elements: "x \<in> set (tl (elements v)) \<Longrightarrow> size x < size v"
  by (rule size_elements) (cases "elements v", auto)

lemma size_dict_value: "map_of (dict_items v) k = Some x \<Longrightarrow> size x < size v"
  by (rule size_dict_items [of k]) (erule map_of_SomeD)

text \<open>
  \<^verbatim>\<open>from_json\<close>, with \<^verbatim>\<open>_function_from_json\<close> and the default
  \<^verbatim>\<open>JSONConvertible.from_json\<close> class method, which call it back. Keys and the marker
  are compared as values.
\<close>

function from_json :: "env \<Rightarrow> pyval \<Rightarrow> pyval action"
  and function_from_json :: "env \<Rightarrow> pyval \<Rightarrow> pyval action"
  and convertible_from_json :: "env \<Rightarrow> pycls \<Rightarrow> pyval \<Rightarrow> kwargs \<Rightarrow> pyval action"
where
  "from_json env json_value s =
     (if isinstance_list json_value then
        (if elements json_value \<noteq> [] \<and> hd (elements json_value) = PStr TUPLE_MARKER then
           (if length (elements json_value) < 2 then (Inl ValueError, s)
            else
              (case map_action (\<lambda>v u. from_json env v u) (tl (elements json_value)) s of
                 (Inl e, s') \<Rightarrow> (Inl e, s')
               | (Inr vs, s') \<Rightarrow> (Inr (PTuple vs), s')))
         else
           (case map_action (\<lambda>v u. from_json env v u) (elements json_value) s of
              (Inl e, s') \<Rightarrow> (Inl e, s')
            | (Inr vs, s') \<Rightarrow> (Inr (PList vs), s')))
      else if isinstance_dict json_value then
        (case map_of (dict_items json_value) (PStr TYPE_NAME_KEY) of
           None \<Rightarrow>
             (case map_action (\<lambda>kv u. from_json env (snd kv) u) (dict_items json_value) s of
                (Inl e, s') \<Rightarrow> (Inl e, s')
              | (Inr vs, s') \<Rightarrow>
                  (Inr (PDict (dict_build (zip (map fst (dict_items json_value)) vs))), s'))
         | Some type_name \<Rightarrow>
             if type_name = PStr ''type'' then type_from_json env json_value s
             else if type_name = PStr ''function'' then function_from_json env json_value s
             else if type_name = PStr ''method'' then method_from_json env json_value s
             else
               (case class_of_typename env type_name of
                  None \<Rightarrow> (Inl TypeError, s)
                | Some cls \<Rightarrow>
                    if cls_custom_from_json cls
                    then (custom_from_json env cls json_value, s)
                    else convertible_from_json env cls json_value [] s))
      else (Inr json_value, s))"
| "function_from_json env json_value s =
     (case map_of (dict_items json_value) (PStr ''name'') of
        None \<Rightarrow> (Inl KeyError, s)
      | Some function_name \<Rightarrow>
          (case map_of (dict_items json_value) (PStr ''code'') of
             Some blob \<Rightarrow>
               (case loads_code env blob of
                  Inl e \<Rightarrow> (Inl e, s)
                | Inr code \<Rightarrow>
                    (case map_of (dict_items json_value) (PStr ''defaults'') of
                       None \<Rightarrow> (Inl KeyError, s)
                     | Some d \<Rightarrow>
                         (case from_json env d s of
                            (Inl e, s') \<Rightarrow> (Inl e, s')
                          | (Inr defaults, s') \<Rightarrow> (new_function code defaults, s'))))
           | None \<Rightarrow> load_symbol_of env function_name s))"
| "convertible_from_json env cls json_value kwargs s =
     (if \<not> isinstance_dict json_value then (Inl AssertionError, s)
      else
        (case map_action (\<lambda>kv u. from_json env (snd kv) u)
                (filter (\<lambda>kv. fst kv \<noteq> PStr TYPE_NAME_KEY) (dict_items json_value)) s of
           (Inl e, s') \<Rightarrow> (Inl e, s')
         | (Inr vs, s') \<Rightarrow>
             (call_with_kwargs env cls
                (dict_build
                   (zip (map fst (filter (\<lambda>kv. fst kv \<noteq> PStr TYPE_NAME_KEY)
                                    (dict_items json_value))) vs)), s')))"
  by pat_completeness auto
termination
  by (relation "measure (\<lambda>x. case x of
          Inl (env, v, s) \<Rightarrow> 3 * size v + 2
        | Inr (Inl (env, v, s)) \<Rightarrow> 3 * size v + 1
        | Inr (Inr (env, cls, v, kw, s)) \<Rightarrow> 3 * size v + 1)")
     (auto dest: size_tl_elements size_elements size_dict_item size_dict_value)

declare from_json.simps [simp del] function_from_json.simps [simp del]
  convertible_from_json.simps [simp del]

section \<open>Plain values\<close>

text \<open>
  The values of the round-trip property: primitives, and lists, tuples and dicts with
  string keys built from them. \<open>unambiguous\<close> excludes the values whose serialized form
  \<^verbatim>\<open>from_json\<close> reads as something else: the empty tuple, a list that starts with the
  tuple marker, and a dict with the key \<^verbatim>\<open>_type\<close>. \<open>wire\<close> is the serialized form of a
  plain value.
\<close>

definition is_str :: "pyval \<Rightarrow> bool" where
  "is_str v = (case v of PStr _ \<Rightarrow> True | _ \<Rightarrow> False)"

fun plain :: "pyval \<Rightarrow> bool" where
  "plain PNone = True"
| "plain (PBool _) = True"
| "plain (PInt _) = True"
| "plain (PFloat _) = True"
| "plain (PStr _) = True"
| "plain (PTuple xs) = list_all plain xs"
| "plain (PList xs) = list_all plain xs"
| "plain (PDict kvs) = (list_all (\<lambda>kv. is_str (fst kv) \<and> plain (snd kv)) kvs \<and> distinct (map fst kvs))"
| "plain _ = False"

fun unambiguous :: "pyval \<Rightarrow> bool" where
  "unambiguous (PTuple xs) = (xs \<noteq> [] \<and> list_all unambiguous xs)"
| "unambiguous (PList xs) = (take 1 xs \<noteq> [PStr TUPLE_MARKER] \<and> list_all unambiguous xs)"
| "unambiguous (PDict kvs) =
     (map_of kvs (PStr TYPE_NAME_KEY) = None \<and> list_all (\<lambda>kv. unambiguous (snd kv)) kvs)"
| "unambiguous _ = True"

fun wire :: "pyval \<Rightarrow> pyval" where
  "wire (PTuple xs) = PList (PStr TUPLE_MARKER # map wire xs)"
| "wire (PList xs) = PList (map wire xs)"
| "wire (PDict kvs) = PDict (map (\<lambda>kv. (fst kv, wire (snd kv))) kvs)"
| "wire v = v"

section \<open>Symbol resolution as the specification describes it\<close>

text \<open>
  The resolution in the words of the specification: the dotted name is split into
  segments; the first segment that starts with an upper-case character starts the chain
  of class and attribute names (when no segment does, the chain is the final segment
  alone); the segments before it are imported as a module, and the chain is walked by
  attribute lookup. The name of the module is the part of the dotted name that spells
  the segments before the chain: the characters of the first \<open>k\<close> segments and the
  \<open>k - 1\<close> dots between them.
\<close>

definition starts_upper :: "string \<Rightarrow> bool" where
  "starts_upper name = (case name of [] \<Rightarrow> False | c # _ \<Rightarrow> isupper c)"

fun first_upper :: "string list \<Rightarrow> nat option" where
  "first_upper [] = None"
| "first_upper (name # names) =
     (if starts_upper name then Some 0 else map_option Suc (first_upper names))"

definition chain_start :: "string list \<Rightarrow> nat" where
  "chain_start segments =
     (case first_upper segments of Some i \<Rightarrow> i | None \<Rightarrow> length segments - 1)"

definition module_text :: "string \<Rightarrow> string list \<Rightarrow> nat \<Rightarrow> string" where
  "module_text type_name segments k =
     take (sum_list (map length (take k segments)) + (k - 1)) type_name"

definition resolve_by_capital :: "env \<Rightarrow> string \<Rightarrow> error + pyval" where
  "resolve_by_capital env type_name =
     (let segments = split_dot type_name; k = chain_start segments
      in case import_module env (module_text type_name segments k) of
           Inl e \<Rightarrow> Inl e
         | Inr module \<Rightarrow> lookup_chain env module (drop k segments))"

section \<open>Dispatch by precedence\<close>

text \<open>
  The dispatch of \<^verbatim>\<open>to_json\<close> in the words of the specification: the categories of
  values in their order of precedence, the test of each, what \<^verbatim>\<open>to_json\<close> does with a
  value taken as a member of one category, and the fallback for a value of none.
\<close>

datatype category =
    Primitive
  | Convertible
  | Tuple
  | List
  | Dict
  | Type
  | BuiltinFunction
  | PlainFunction
  | Method

definition precedence :: "category list" where
  "precedence =
     [Primitive, Convertible, Tuple, List, Dict, Type, BuiltinFunction, PlainFunction, Method]"

fun matches :: "category \<Rightarrow> pyval \<Rightarrow> bool" where
  "matches Primitive v = isinstance_primitive v"
| "matches Convertible v = isinstance_convertible v"
| "matches Tuple v = isinstance_tuple v"
| "matches List v = isinstance_list v"
| "matches Dict v = isinstance_dict v"
| "matches Type v = isinstance_type v"
| "matches BuiltinFunction v = isbuiltin v"
| "matches PlainFunction v = isfunction v"
| "matches Method v = ismethod v"

fun convert_as :: "env \<Rightarrow> nat \<Rightarrow> category \<Rightarrow> pyval \<Rightarrow> kwargs \<Rightarrow> pyval fuel_action" where
  "convert_as env n Primitive value kw s = Some (Inr value, s)"
| "convert_as env n Convertible value kw s = Some (obj_to_json env value kw, s)"
| "convert_as env n Tuple value kw s =
     (case to_json env n (PList (elements value)) kw s of
        None \<Rightarrow> None
      | Some (Inl e, s') \<Rightarrow> Some (Inl e, s')
      | Some (Inr j, s') \<Rightarrow> Some (prepend_marker j, s'))"
| "convert_as env n List value kw s =
     (case map_fuel (\<lambda>item. to_json env n item kw) (elements value) s of
        None \<Rightarrow> None
      | Some (Inl e, s') \<Rightarrow> Some (Inl e, s')
      | Some (Inr js, s') \<Rightarrow> Some (Inr (PList js), s'))"
| "convert_as env n Dict value kw s =
     (case map_fuel (\<lambda>kv. to_json env n (snd kv) kw) (dict_items value) s of
        None \<Rightarrow> None
      | Some (Inl e, s') \<Rightarrow> Some (Inl e, s')
      | Some (Inr js, s') \<Rightarrow>
          Some (Inr (PDict (dict_build (zip (map fst (dict_items value)) js))), s'))"
| "convert_as env n Type value kw s = Some (type_to_json env value s)"
| "convert_as env n BuiltinFunction value kw s = Some (builtin_function_to_json value, s)"
| "convert_as env n PlainFunction value kw s =
     (case value of
        PFunction module qualname name code defaults globals \<Rightarrow>
          if is_local_function name code then
            (case to_json env n defaults [] s of
               None \<Rightarrow> None
             | Some (Inl e, s') \<Rightarrow> Some (Inl e, s')
             | Some (Inr d, s') \<Rightarrow>
                 Some (Inr (PDict (dict_build
                   [(PStr TYPE_NAME_KEY, PStr ''function''),
                    (PStr ''name'', PStr (type_name_of module qualname)),
                    (PStr ''code'', PStr (encode_code env code)),
                    (PStr ''defaults'', d)])), s'))
          else
            Some (Inr (PDict (dict_build
              [(PStr TYPE_NAME_KEY, PStr ''function''),
               (PStr ''name'', PStr (type_name_of module qualname))])), s)
      | _ \<Rightarrow> Some (Inl AttributeError, s))"
| "convert_as env n Method value kw s = Some (method_to_json value, s)"

definition convert_fallback :: "env \<Rightarrow> nat \<Rightarrow> pyval \<Rightarrow> pyval fuel_action" where
  "convert_fallback env n value s =
     (case type_converter env of
        None \<Rightarrow> Some (Inl ValueError, s)
      | Some hook \<Rightarrow>
          (case hook (type_of value) of
             Inl e \<Rightarrow> Some (Inl e, s)
           | Inr None \<Rightarrow> Some (Inl ValueError, s)
           | Inr (Some converter) \<Rightarrow>
               (case converter value of
                  Inl e \<Rightarrow> Some (Inl e, s)
                | Inr converted \<Rightarrow> to_json env n converted [] s)))"

definition to_json_by_precedence :: "env \<Rightarrow> nat \<Rightarrow> pyval \<Rightarrow> kwargs \<Rightarrow> pyval fuel_action" where
  "to_json_by_precedence env n value kw s =
     (case filter (\<lambda>c. matches c value) precedence of
        [] \<Rightarrow> convert_fallback env n value s
      | c # _ \<Rightarrow> convert_as env n c value kw s)"

section \<open>Callable signatures\<close>

text \<open>
  Modelled from the spec: \<^verbatim>\<open>class_schema.ValueSpec\<close>, which \<^verbatim>\<open>callable_signature.py\<close>
  imports and the specification leaves to a collaborator, used through \<^verbatim>\<open>.annotation\<close>,
  \<^verbatim>\<open>.has_default\<close>, \<^verbatim>\<open>.default\<close> and \<^verbatim>\<open>.set_default(value)\<close>. The rest of a value
  specification is the uninterpreted \<open>vs_constraint\<close>. \<^verbatim>\<open>object_utils.MISSING_VALUE\<close> and
  \<^verbatim>\<open>inspect.Parameter.empty\<close> are two sentinel objects.
\<close>

record value_spec =
  vs_constraint :: string
  vs_annotation :: pyval
  vs_has_default :: bool
  vs_default :: pyval

definition MISSING_VALUE :: pyval where
  "MISSING_VALUE = PInst (builtin_cls ''MissingValue'') (PObject [])"

definition PARAMETER_EMPTY :: pyval where
  "PARAMETER_EMPTY = PType (builtin_cls ''_empty'')"

definition set_default :: "value_spec \<Rightarrow> pyval \<Rightarrow> value_spec" where
  "set_default spec v = spec\<lparr>vs_has_default := True, vs_default := v\<rparr>"

record argument =
  arg_name :: string
  arg_value_spec :: value_spec

datatype callable_type = FUNCTION | METHOD

record signature =
  sig_callable_type :: callable_type
  sig_name :: string
  sig_module_name :: string
  sig_args :: "argument list"
  sig_kwonlyargs :: "argument list"
  sig_varargs :: "argument option"
  sig_varkw :: "argument option"
  sig_return_value :: "value_spec option"
  sig_qualname :: string

text \<open>\<^verbatim>\<open>Signature.__init__\<close>: \<^verbatim>\<open>args or []\<close>, \<^verbatim>\<open>kwonlyargs or []\<close>, \<^verbatim>\<open>qualname or name\<close>.\<close>

definition Signature ::
  "callable_type \<Rightarrow> string \<Rightarrow> string \<Rightarrow> argument list option \<Rightarrow> argument list option \<Rightarrow>
   argument option \<Rightarrow> argument option \<Rightarrow> value_spec option \<Rightarrow> string option \<Rightarrow> signature" where
  "Signature ct name module_name args kwonlyargs varargs varkw return_value qualname =
     \<lparr>sig_callable_type = ct, sig_name = name, sig_module_name = module_name,
      sig_args = (case args of None \<Rightarrow> [] | Some as \<Rightarrow> as),
      sig_kwonlyargs = (case kwonlyargs of None \<Rightarrow> [] | Some ks \<Rightarrow> ks),
      sig_varargs = varargs, sig_varkw = varkw, sig_return_value = return_value,
      sig_qualname = (case qualname of None \<Rightarrow> name | Some q \<Rightarrow> if q = [] then name else q)\<rparr>"

subsection \<open>Equality\<close>

text \<open>
  \<^verbatim>\<open>==\<close> of two value specifications is the collaborator's, the parameter \<open>vs_eq\<close>.
  \<^verbatim>\<open>Argument\<close> is a dataclass: two arguments are equal when their names and value
  specifications are. Two lists are equal when they have the same length and equal
  elements; \<^verbatim>\<open>None\<close> equals only \<^verbatim>\<open>None\<close>.
\<close>

definition argument_eq :: "(value_spec \<Rightarrow> value_spec \<Rightarrow> bool) \<Rightarrow> argument \<Rightarrow> argument \<Rightarrow> bool" where
  "argument_eq vs_eq a b = (arg_name a = arg_name b \<and> vs_eq (arg_value_spec a) (arg_value_spec b))"

fun list_eq :: "('a \<Rightarrow> 'a \<Rightarrow> bool) \<Rightarrow> 'a list \<Rightarrow> 'a list \<Rightarrow> bool" where
  "list_eq eq [] [] = True"
| "list_eq eq (x # xs) (y # ys) = (eq x y \<and> list_eq eq xs ys)"
| "list_eq eq _ _ = False"

fun optional_eq :: "('a \<Rightarrow> 'a \<Rightarrow> bool) \<Rightarrow> 'a option \<Rightarrow> 'a option \<Rightarrow> bool" where
  "optional_eq eq None None = True"
| "optional_eq eq (Some x) (Some y) = eq x y"
| "optional_eq eq _ _ = False"

text \<open>
  A \<^verbatim>\<open>Signature\<close> object is its address, which \<^verbatim>\<open>is\<close> compares, and its fields; the other
  operand of \<^verbatim>\<open>==\<close> is a \<^verbatim>\<open>Signature\<close> object or something else.
\<close>

datatype signature_object = SignatureAt (sig_address: nat) (sig_fields: signature)

datatype operand = ASignature signature_object | NotASignature

definition signature_eq ::
  "(value_spec \<Rightarrow> value_spec \<Rightarrow> bool) \<Rightarrow> signature_object \<Rightarrow> operand \<Rightarrow> bool" where
  "signature_eq vs_eq self other =
     (case other of
        NotASignature \<Rightarrow> False
      | ASignature that \<Rightarrow>
          if sig_address self = sig_address that then True
          else
            (sig_callable_type (sig_fields self) = sig_callable_type (sig_fields that)
             \<and> sig_name (sig_fields self) = sig_name (sig_fields that)
             \<and> sig_qualname (sig_fields self) = sig_qualname (sig_fields that)
             \<and> sig_module_name (sig_fields self) = sig_module_name (sig_fields that)
             \<and> list_eq (argument_eq vs_eq) (sig_args (sig_fields self)) (sig_args (sig_fields that))
             \<and> list_eq (argument_eq vs_eq) (sig_kwonlyargs (sig_fields self))
                   (sig_kwonlyargs (sig_fields that))
             \<and> optional_eq (argument_eq vs_eq) (sig_varargs (sig_fields self))
                   (sig_varargs (sig_fields that))
             \<and> optional_eq (argument_eq vs_eq) (sig_varkw (sig_fields self)) (sig_varkw (sig_fields that))
             \<and> optional_eq vs_eq (sig_return_value (sig_fields self))
                   (sig_return_value (sig_fields that))))"

definition signature_ne ::
  "(value_spec \<Rightarrow> value_spec \<Rightarrow> bool) \<Rightarrow> signature_object \<Rightarrow> operand \<Rightarrow> bool" where
  "signature_ne vs_eq self other = (\<not> signature_eq vs_eq self other)"

subsection \<open>Signatures from callables\<close>

text \<open>
  A parameter of \<^verbatim>\<open>inspect.signature(func).parameters\<close>, and a callable as far as
  \<^verbatim>\<open>Signature.from_callable\<close> looks at it: whether it is callable; whether it is an
  \<^verbatim>\<open>object_utils.Functor\<close> and, if so, its \<^verbatim>\<open>signature\<close> attribute; what
  \<^verbatim>\<open>inspect.isroutine\<close> says of it and of its \<^verbatim>\<open>__call__\<close>; the parameters, name, module
  and qualified name of the routine that is introspected; and whether that routine is a
  bound method.
\<close>

datatype param_kind =
    POSITIONAL_ONLY
  | POSITIONAL_OR_KEYWORD
  | VAR_POSITIONAL
  | KEYWORD_ONLY
  | VAR_KEYWORD

record parameter =
  param_name :: string
  param_kind :: param_kind
  param_default :: pyval
  param_annotation :: pyval

record pycallable =
  call_is_callable :: bool
  call_functor_signature :: "signature option option"
  call_isroutine :: bool
  call_dunder_call_isroutine :: bool
  call_parameters :: "parameter list"
  call_ismethod :: bool
  call_name :: string
  call_module :: "string option"
  call_qualname :: string

text \<open>
  \<^verbatim>\<open>ValueSpec.from_annotation\<close> is the collaborator's: the parameter \<open>from_annotation\<close>,
  whose second argument is false when the source leaves it out.
\<close>

definition get_value_spec :: "(pyval \<Rightarrow> bool \<Rightarrow> value_spec) \<Rightarrow> parameter \<Rightarrow> value_spec" where
  "get_value_spec from_annotation param =
     (if param_default param \<noteq> PARAMETER_EMPTY
      then set_default (from_annotation (param_default param) True) (param_default param)
      else if param_annotation param \<noteq> PARAMETER_EMPTY
      then from_annotation (param_annotation param) True
      else from_annotation (param_annotation param) False)"

definition make_arg_spec :: "(pyval \<Rightarrow> bool \<Rightarrow> value_spec) \<Rightarrow> parameter \<Rightarrow> argument" where
  "make_arg_spec from_annotation param =
     \<lparr>arg_name = param_name param, arg_value_spec = get_value_spec from_annotation param\<rparr>"

text \<open>The loop over the parameters, on \<open>(args, kwonly_args, varargs, varkw)\<close>.\<close>

fun classify_parameters ::
  "(pyval \<Rightarrow> bool \<Rightarrow> value_spec) \<Rightarrow> parameter list \<Rightarrow>
   argument list \<times> argument list \<times> argument option \<times> argument option \<Rightarrow>
   argument list \<times> argument list \<times> argument option \<times> argument option" where
  "classify_parameters from_annotation [] acc = acc"
| "classify_parameters from_annotation (param # params) (args, kwonly_args, varargs, varkw) =
     (let arg_spec = make_arg_spec from_annotation param in
      classify_parameters from_annotation params
        (if param_kind param = POSITIONAL_ONLY \<or> param_kind param = POSITIONAL_OR_KEYWORD
         then (args @ [arg_spec], kwonly_args, varargs, varkw)
         else if param_kind param = KEYWORD_ONLY
         then (args, kwonly_args @ [arg_spec], varargs, varkw)
         else if param_kind param = VAR_POSITIONAL
         then (args, kwonly_args, Some arg_spec, varkw)
         else (args, kwonly_args, varargs, Some arg_spec)))"

definition from_callable :: "(pyval \<Rightarrow> bool \<Rightarrow> value_spec) \<Rightarrow> pycallable \<Rightarrow> error + signature" where
  "from_callable from_annotation callable_object =
     (if \<not> call_is_callable callable_object then Inl TypeError
      else
        (case call_functor_signature callable_object of
           Some None \<Rightarrow> Inl AssertionError
         | Some (Some functor_signature) \<Rightarrow> Inr functor_signature
         | None \<Rightarrow>
             if \<not> call_isroutine callable_object \<and> \<not> call_dunder_call_isroutine callable_object
             then Inl TypeError
             else
               (case classify_parameters from_annotation (call_parameters callable_object)
                       ([], [], None, None) of
                  (args, kwonly_args, varargs, varkw) \<Rightarrow>
                    Inr (Signature
                           (if call_ismethod callable_object then METHOD else FUNCTION)
                           (call_name callable_object)
                           (case call_module callable_object of
                              None \<Rightarrow> ''wrapper'' | Some m \<Rightarrow> m)
                           (Some args) (Some kwonly_args) varargs varkw None
                           (Some (call_qualname callable_object))))))"

subsection \<open>Functions from signatures\<close>

text \<open>
  \<^verbatim>\<open>_append_arg\<close>, on the list \<^verbatim>\<open>args\<close> of parameter sources and the dict
  \<^verbatim>\<open>exec_locals\<close>, both of which it updates.
\<close>

definition append_arg ::
  "string \<Rightarrow> value_spec \<Rightarrow> bool \<Rightarrow> string \<Rightarrow>
   string list \<times> (string \<times> pyval) list \<Rightarrow> string list \<times> (string \<times> pyval) list" where
  "append_arg name arg_spec force_missing_as_default arg_prefix st =
     (let annotated = (vs_annotation arg_spec \<noteq> MISSING_VALUE);
          defaulted = (arg_prefix = [] \<and> (force_missing_as_default \<or> vs_has_default arg_spec));
          s = arg_prefix @ name
              @ (if annotated then '': _annotation_'' @ name else [])
              @ (if defaulted then '' = _default_'' @ name else []);
          locals1 = (if annotated
                     then dict_set (''_annotation_'' @ name) (vs_annotation arg_spec) (snd st)
                     else snd st);
          locals2 = (if defaulted
                     then dict_set (''_default_'' @ name) (vs_default arg_spec) locals1
                     else locals1)
      in (fst st @ [s], locals2))"

text \<open>The loop over \<^verbatim>\<open>self.args\<close>, with the flag \<^verbatim>\<open>has_previous_default\<close>.\<close>

fun positional_args ::
  "argument list \<Rightarrow> bool \<Rightarrow> string list \<times> (string \<times> pyval) list \<Rightarrow>
   string list \<times> (string \<times> pyval) list" where
  "positional_args [] has_previous_default st = st"
| "positional_args (arg # rest) has_previous_default st =
     positional_args rest
       (has_previous_default \<or> vs_has_default (arg_value_spec arg))
       (append_arg (arg_name arg) (arg_value_spec arg) has_previous_default [] st)"

text \<open>The loop over \<^verbatim>\<open>self.kwonlyargs\<close>.\<close>

fun keyword_only_args ::
  "argument list \<Rightarrow> string list \<times> (string \<times> pyval) list \<Rightarrow>
   string list \<times> (string \<times> pyval) list" where
  "keyword_only_args [] st = st"
| "keyword_only_args (arg # rest) st =
     keyword_only_args rest (append_arg (arg_name arg) (arg_value_spec arg) False [] st)"

text \<open>
  Modelled from the spec: \<^verbatim>\<open>object_utils.make_function\<close>, which is not among the
  sources. By the specification it compiles a new callable whose parameter list is the
  derived parameter sources and whose body is the supplied lines, in the given execution
  namespaces. The model keeps what the callable is compiled from; \<^verbatim>\<open>make_function\<close> of
  \<^verbatim>\<open>Signature\<close> then sets its \<^verbatim>\<open>__module__\<close>, \<^verbatim>\<open>__name__\<close> and \<^verbatim>\<open>__qualname__\<close>.
\<close>

record synthesized =
  syn_name :: string
  syn_module :: string
  syn_qualname :: string
  syn_args :: "string list"
  syn_body :: "string list"
  syn_globals :: "(string \<times> pyval) list"
  syn_locals :: "(string \<times> pyval) list"
  syn_return_type :: "value_spec option"

definition make_function ::
  "signature \<Rightarrow> string list \<Rightarrow> (string \<times> pyval) list option \<Rightarrow> (string \<times> pyval) list option \<Rightarrow>
   synthesized" where
  "make_function self body exec_globals exec_locals =
     (let globals0 = (case exec_globals of None \<Rightarrow> [] | Some g \<Rightarrow> g);
          locals0 = (case exec_locals of None \<Rightarrow> [] | Some l \<Rightarrow> l);
          st1 = positional_args (sig_args self) False ([], locals0);
          st2 = (case sig_varargs self of
                   Some va \<Rightarrow> append_arg (arg_name va) (arg_value_spec va) False ''*'' st1
                 | None \<Rightarrow>
                     if sig_kwonlyargs self \<noteq> [] then (fst st1 @ [''*''], snd st1) else st1);
          st3 = keyword_only_args (sig_kwonlyargs self) st2;
          st4 = (case sig_varkw self of
                   Some vk \<Rightarrow> append_arg (arg_name vk) (arg_value_spec vk) False ''**'' st3
                 | None \<Rightarrow> st3)
      in \<lparr>syn_name = sig_name self, syn_module = sig_module_name self,
          syn_qualname = sig_qualname self, syn_args = fst st4, syn_body = body,
          syn_globals = globals0, syn_locals = snd st4,
          syn_return_type = sig_return_value self\<rparr>)"

text \<open>A parameter source that ends with a default for the parameter \<open>name\<close>.\<close>

definition has_default_source :: "string \<Rightarrow> string \<Rightarrow> bool" where
  "has_default_source name source = suffix ('' = _default_'' @ name) source"

text \<open>The source of the annotation of a parameter, when its value specification has one.\<close>

definition annotation_source :: "string \<Rightarrow> value_spec \<Rightarrow> string" where
  "annotation_source name spec =
     (if vs_annotation spec \<noteq> MISSING_VALUE then '': _annotation_'' @ name else [])"

text \<open>The sources that the loop over the positional arguments appends.\<close>

fun positional_sources :: "argument list \<Rightarrow> bool \<Rightarrow> string list" where
  "positional_sources [] has_previous_default = []"
| "positional_sources (arg # rest) has_previous_default =
     (arg_name arg @ annotation_source (arg_name arg) (arg_value_spec arg)
        @ (if has_previous_default \<or> vs_has_default (arg_value_spec arg)
           then '' = _default_'' @ arg_name arg else []))
     # positional_sources rest (has_previous_default \<or> vs_has_default (arg_value_spec arg))"

section \<open>Example values\<close>

text \<open>
  The class \<^verbatim>\<open>m.A\<close>, and the class \<^verbatim>\<open>m.B\<close> whose \<^verbatim>\<open>type_name\<close> attribute is \<^verbatim>\<open>'A'\<close>.
\<close>

definition cls_mA :: pycls where
  "cls_mA = \<lparr>cls_id = 1, cls_module = ''m'', cls_qualname = ''A'', cls_convertible = True,
             cls_abstract = False, cls_auto_register = True, cls_type_name = None,
             cls_custom_from_json = False\<rparr>"

definition cls_mB :: pycls where
  "cls_mB = \<lparr>cls_id = 2, cls_module = ''m'', cls_qualname = ''B'', cls_convertible = True,
            cls_abstract = False, cls_auto_register = True, cls_type_name = Some ''A'',
            cls_custom_from_json = False\<rparr>"

text \<open>An environment with nothing in it: no module, no registered class, no converter.\<close>

definition empty_env :: env where
  "empty_env =
     \<lparr>import_module = (\<lambda>name. Inl ImportError),
      getattr = (\<lambda>obj name. Inl AttributeError),
      obj_to_json = (\<lambda>obj kw. Inl TypeError),
      type_converter = None,
      encode_code = co_payload,
      decode_code = (\<lambda>text. Inl ValueError),
      type_registry = [],
      custom_from_json = (\<lambda>cls json. Inl TypeError),
      construct = (\<lambda>cls args. Inl TypeError)\<rparr>"

text \<open>
  An environment with the modules \<^verbatim>\<open>m\<close> and \<^verbatim>\<open>pkg.mod\<close>, which both hold the class
  \<^verbatim>\<open>A\<close>, which has the class method \<^verbatim>\<open>x\<close>; the instances of \<^verbatim>\<open>A\<close> serialize to
  \<^verbatim>\<open>{'_type': 'm.A'}\<close>, calling \<^verbatim>\<open>A\<close> gives an instance with the keyword arguments as
  attributes, and every code blob decodes to the code of a nested lambda without free
  variables. In \<open>earlier_env\<close> the attribute \<^verbatim>\<open>x\<close> of \<^verbatim>\<open>A\<close> is still the number 7.
\<close>

definition sample_env :: env where
  "sample_env =
     \<lparr>import_module = (\<lambda>name.
        if name = ''m'' then Inr (PModule ''m'')
        else if name = ''pkg.mod'' then Inr (PModule ''pkg.mod'')
        else Inl ImportError),
      getattr = (\<lambda>obj name.
        if (obj = PModule ''m'' \<or> obj = PModule ''pkg.mod'') \<and> name = ''A''
        then Inr (PType cls_mA)
        else if obj = PType cls_mA \<and> name = ''x'' then Inr (PMethod ''m'' ''A.x'' (PType cls_mA))
        else Inl AttributeError),
      obj_to_json = (\<lambda>obj kw. Inr (PDict [(PStr TYPE_NAME_KEY, PStr ''m.A'')])),
      type_converter = None,
      encode_code = co_payload,
      decode_code = (\<lambda>text. Inr \<lparr>co_flags = 19, co_name = ''<lambda>'',
                                    co_qualname = ''f.<locals>.<lambda>'', co_freevars = [],
                                    co_payload = text\<rparr>),
      type_registry = [(''m.A'', cls_mA)],
      custom_from_json = (\<lambda>cls json. Inl TypeError),
      construct = (\<lambda>cls args. Inr (PInst cls (PObject args)))\<rparr>"

definition earlier_env :: env where
  "earlier_env =
     sample_env\<lparr>getattr := (\<lambda>obj name.
        if obj = PType cls_mA \<and> name = ''x'' then Inr (PInt 7)
        else getattr sample_env obj name)\<rparr>"

text \<open>
  A plain value; instances of \<^verbatim>\<open>A\<close> that are also a tuple and a string; a dict whose keys
  are not strings; the serialized forms of an instance of \<^verbatim>\<open>A\<close> and of a nested lambda
  with one default, and the code that the blob of the latter decodes to.
\<close>

definition sample_value :: pyval where
  "sample_value =
     PDict [(PStr ''a'', PTuple [PInt 1, PList [PNone, PStr ''x'']]), (PStr ''b'', PBool True)]"

definition convertible_tuple :: pyval where
  "convertible_tuple = PInst cls_mA (PTuple [PInt 1])"

definition convertible_str :: pyval where
  "convertible_str = PInst cls_mA (PStr ''s'')"

definition int_keyed_dict :: pyval where
  "int_keyed_dict = PDict [(PInt 1, PTuple [PInt 2]), (PTuple [PStr ''k''], PStr ''v'')]"

definition sample_json :: pyval where
  "sample_json =
     PDict [(PStr TYPE_NAME_KEY, PStr ''m.A''), (PStr ''x'', PInt 1),
            (PStr ''y'', PList [PStr TUPLE_MARKER, PInt 2, PInt 3])]"

definition function_json :: pyval where
  "function_json =
     PDict [(PStr TYPE_NAME_KEY, PStr ''function''), (PStr ''name'', PStr ''m.f.<locals>.<lambda>''),
            (PStr ''code'', PStr ''blob''),
            (PStr ''defaults'', PList [PStr TUPLE_MARKER, PInt 1])]"

definition decoded_code :: pycode where
  "decoded_code = \<lparr>co_flags = 19, co_name = ''<lambda>'',
                    co_qualname = ''f.<locals>.<lambda>'', co_freevars = [],
                    co_payload = ''blob''\<rparr>"

text \<open>
  Two value specifications, and the signature of \<^verbatim>\<open>m.f\<close> with one positional argument
  \<^verbatim>\<open>a\<close> and a given value specification for the return value.
\<close>

definition any_spec :: value_spec where
  "any_spec = \<lparr>vs_constraint = ''Any'', vs_annotation = MISSING_VALUE,
               vs_has_default = False, vs_default = MISSING_VALUE\<rparr>"

definition int_spec :: value_spec where
  "int_spec = \<lparr>vs_constraint = ''Int'', vs_annotation = PType (builtin_cls ''int''),
               vs_has_default = False, vs_default = MISSING_VALUE\<rparr>"

definition sig_returning :: "value_spec option \<Rightarrow> signature" where
  "sig_returning r =
     Signature FUNCTION ''f'' ''m'' (Some [\<lparr>arg_name = ''a'', arg_value_spec = any_spec\<rparr>])
       None None None r None"

text \<open>
  The callable \<^verbatim>\<open>def f(a, b=2, *c, d, **e)\<close> of the module \<^verbatim>\<open>m\<close>; a
  \<^verbatim>\<open>from_annotation\<close> that gives every parameter the unconstrained specification; and a
  signature whose first positional argument has a default and whose second has none.
\<close>

definition f_callable :: pycallable where
  "f_callable =
     \<lparr>call_is_callable = True, call_functor_signature = None, call_isroutine = True,
      call_dunder_call_isroutine = True,
      call_parameters =
        [\<lparr>param_name = ''a'', param_kind = POSITIONAL_OR_KEYWORD,
          param_default = PARAMETER_EMPTY, param_annotation = PARAMETER_EMPTY\<rparr>,
         \<lparr>param_name = ''b'', param_kind = POSITIONAL_OR_KEYWORD,
          param_default = PInt 2, param_annotation = PARAMETER_EMPTY\<rparr>,
         \<lparr>param_name = ''c'', param_kind = VAR_POSITIONAL,
          param_default = PARAMETER_EMPTY, param_annotation = PARAMETER_EMPTY\<rparr>,
         \<lparr>param_name = ''d'', param_kind = KEYWORD_ONLY,
          param_default = PARAMETER_EMPTY, param_annotation = PARAMETER_EMPTY\<rparr>,
         \<lparr>param_name = ''e'', param_kind = VAR_KEYWORD,
          param_default = PARAMETER_EMPTY, param_annotation = PARAMETER_EMPTY\<rparr>],
      call_ismethod = False, call_name = ''f'', call_module = Some ''m'',
      call_qualname = ''f''\<rparr>"

definition any_from_annotation :: "pyval \<Rightarrow> bool \<Rightarrow> value_spec" where
  "any_from_annotation annotation accept_value = any_spec"

definition sig_default_then_plain :: signature where
  "sig_default_then_plain =
     Signature FUNCTION ''g'' ''m''
       (Some [\<lparr>arg_name = ''x'', arg_value_spec = set_default any_spec (PInt 1)\<rparr>,
              \<lparr>arg_name = ''y'', arg_value_spec = any_spec\<rparr>])
       None None None None None"

section \<open>Registry properties\<close>

lemma map_of_dict_set: "map_of (dict_set k v d) = (map_of d)(k \<mapsto> v)"
  by (induction d) (auto simp: fun_eq_iff)

lemma dict_set_keys_present:
  "map_of d k \<noteq> None \<Longrightarrow> map fst (dict_set k v d) = map fst d"
  by (induction d) auto

lemma dict_set_keys_absent:
  "map_of d k = None \<Longrightarrow> dict_set k v d = d @ [(k, v)]"
  by (induction d) (auto split: if_splits)

text \<open>
  Claim C2. Registering a type name that is already registered, with
  \<^verbatim>\<open>override_existing\<close> false, raises \<^verbatim>\<open>KeyError\<close> and leaves the registry unchanged.
  With \<^verbatim>\<open>override_existing\<close> true the call succeeds, a following
  \<^verbatim>\<open>class_from_typename(type_name)\<close> returns the newly registered class, and every
  other name resolves as before.
\<close>

theorem register_conflict_or_override:
  "(is_registered reg type_name \<longrightarrow>
      register reg type_name cls False = (Inl KeyError, reg))
   \<and> fst (register reg type_name cls True) = Inr ()
   \<and> class_from_typename (snd (register reg type_name cls True)) type_name = Some cls
   \<and> (\<forall>other. other \<noteq> type_name \<longrightarrow>
        class_from_typename (snd (register reg type_name cls True)) other
          = class_from_typename reg other)"
  by (simp add: register_def is_registered_def class_from_typename_def map_of_dict_set)

theorem register_conflict_or_override_witness:
  "is_registered [(''A'', cls_mA)] ''A''
   \<and> register [(''A'', cls_mA)] ''A'' cls_mB False = (Inl KeyError, [(''A'', cls_mA)])
   \<and> class_from_typename (snd (register [(''A'', cls_mA)] ''A'' cls_mB True)) ''A'' = Some cls_mB
   \<and> class_from_typename (snd (register [(''A'', cls_mA)] ''A'' cls_mB True)) ''Z''
       = class_from_typename [(''A'', cls_mA)] ''Z''"
  using register_conflict_or_override [of "[(''A'', cls_mA)]" "''A''" cls_mB]
  by (simp add: is_registered_def dict_contains_def)

section \<open>Round trip of plain values\<close>

lemma foldl_dict_set_distinct:
  "distinct (map fst (d @ kvs)) \<Longrightarrow> foldl (\<lambda>d (k, v). dict_set k v d) d kvs = d @ kvs"
proof (induction kvs arbitrary: d)
  case Nil
  then show ?case by simp
next
  case (Cons kv kvs)
  obtain k v where kv: "kv = (k, v)" by (cases kv)
  from Cons.prems kv have "map_of d k = None"
    by (auto simp: map_of_eq_None_iff)
  then have step: "dict_set k v d = d @ [(k, v)]" by (rule dict_set_keys_absent)
  from Cons.prems kv have "distinct (map fst ((d @ [(k, v)]) @ kvs))" by simp
  from Cons.IH [OF this] show ?case using kv step by simp
qed

lemma dict_build_distinct: "distinct (map fst kvs) \<Longrightarrow> dict_build kvs = kvs"
  using foldl_dict_set_distinct [of "[]" kvs] by (simp add: dict_build_def)

lemma map_fuel_all:
  "(\<And>x. x \<in> set xs \<Longrightarrow> f x s = Some (Inr (g x), s))
   \<Longrightarrow> map_fuel f xs s = Some (Inr (map g xs), s)"
  by (induction xs) simp_all

lemma map_action_all:
  "(\<And>x. x \<in> set xs \<Longrightarrow> f x s = (Inr (g x), s))
   \<Longrightarrow> map_action f xs s = (Inr (map g xs), s)"
  by (induction xs) simp_all

lemma zip_keys_values: "zip (map fst kvs) (map (\<lambda>kv. h (snd kv)) kvs) = map (\<lambda>kv. (fst kv, h (snd kv))) kvs"
  by (induction kvs) auto

lemma to_json_primitive:
  "isinstance_primitive x \<Longrightarrow> 0 < n \<Longrightarrow> to_json env n x kw s = Some (Inr x, s)"
  by (cases n) simp_all

lemma to_json_plain:
  "plain x \<Longrightarrow> 2 * size x < n \<Longrightarrow> to_json env n x kw s = Some (Inr (wire x), s)"
proof (induction x arbitrary: n)
  case (PTuple xs)
  then obtain m where n: "n = Suc (Suc m)" by (cases n; cases "n - 1") auto
  have "to_json env m x kw s = Some (Inr (wire x), s)" if "x \<in> set xs" for x
  proof (rule PTuple.IH [OF that])
    from PTuple.prems that show "plain x" by (simp add: list_all_iff)
    from size_list_member [OF that] PTuple.prems(2) n show "2 * size x < m" by simp
  qed
  then have "map_fuel (\<lambda>item. to_json env m item kw) xs s = Some (Inr (map wire xs), s)"
    by (rule map_fuel_all)
  then show ?case using n
    by (simp add: isinstance_primitive_def isinstance_tuple_def isinstance_list_def
        elements_def prepend_marker_def)
next
  case (PList xs)
  then obtain m where n: "n = Suc m" by (cases n) auto
  have "to_json env m x kw s = Some (Inr (wire x), s)" if "x \<in> set xs" for x
  proof (rule PList.IH [OF that])
    from PList.prems that show "plain x" by (simp add: list_all_iff)
    from size_list_member [OF that] PList.prems(2) n show "2 * size x < m" by simp
  qed
  then have "map_fuel (\<lambda>item. to_json env m item kw) xs s = Some (Inr (map wire xs), s)"
    by (rule map_fuel_all)
  then show ?case using n
    by (simp add: isinstance_primitive_def isinstance_tuple_def isinstance_list_def
        elements_def)
next
  case (PDict kvs)
  then obtain m where n: "n = Suc m" by (cases n) auto
  have "to_json env m (snd kv) kw s = Some (Inr (wire (snd kv)), s)" if "kv \<in> set kvs" for kv
  proof (rule PDict.IH(2) [OF that])
    show "snd kv \<in> Basic_BNFs.snds kv" by (cases kv) simp
    from PDict.prems that show "plain (snd kv)" by (simp add: list_all_iff)
    from size_items_member [of "fst kv" "snd kv" kvs] that PDict.prems(2) n
    show "2 * size (snd kv) < m" by simp
  qed
  then have "map_fuel (\<lambda>kv. to_json env m (snd kv) kw) kvs s
               = Some (Inr (map (\<lambda>kv. wire (snd kv)) kvs), s)"
    by (rule map_fuel_all)
  moreover from PDict.prems have "distinct (map fst (map (\<lambda>kv. (fst kv, wire (snd kv))) kvs))"
    by (simp add: comp_def)
  ultimately show ?case using n
    by (simp add: isinstance_primitive_def isinstance_tuple_def isinstance_list_def
        isinstance_dict_def dict_items_def zip_keys_values dict_build_distinct)
qed (simp_all add: to_json_primitive isinstance_primitive_def)

lemma wire_not_marker: "plain x \<Longrightarrow> x \<noteq> PStr TUPLE_MARKER \<Longrightarrow> wire x \<noteq> PStr TUPLE_MARKER"
  by (cases x) auto

lemma map_of_wire_keys:
  "map_of (map (\<lambda>kv. (fst kv, wire (snd kv))) kvs) k = None \<longleftrightarrow> map_of kvs k = None"
  by (induction kvs) auto

lemma map_action_map:
  "(\<And>x. x \<in> set xs \<Longrightarrow> f (h x) s = (Inr (g x), s))
   \<Longrightarrow> map_action f (map h xs) s = (Inr (map g xs), s)"
  by (induction xs) simp_all

lemma from_json_wire:
  "plain x \<Longrightarrow> unambiguous x \<Longrightarrow> from_json env (wire x) s = (Inr x, s)"
proof (induction x)
  case (PTuple xs)
  have "from_json env (wire x) s = (Inr x, s)" if "x \<in> set xs" for x
    using PTuple.IH [OF that] PTuple.prems that by (simp add: list_all_iff)
  then have "map_action (\<lambda>v u. from_json env v u) (map wire xs) s = (Inr (map (\<lambda>x. x) xs), s)"
    by (rule map_action_map)
  moreover from PTuple.prems have "xs \<noteq> []" by simp
  ultimately show ?case
    by (subst from_json.simps) (simp add: isinstance_list_def elements_def)
next
  case (PList xs)
  have "from_json env (wire x) s = (Inr x, s)" if "x \<in> set xs" for x
    using PList.IH [OF that] PList.prems that by (simp add: list_all_iff)
  then have all: "map_action (\<lambda>v u. from_json env v u) (map wire xs) s = (Inr (map (\<lambda>x. x) xs), s)"
    by (rule map_action_map)
  have "hd (map wire xs) \<noteq> PStr TUPLE_MARKER" if "xs \<noteq> []"
  proof -
    from that obtain y ys where xs: "xs = y # ys" by (cases xs) auto
    with PList.prems have "plain y" "y \<noteq> PStr TUPLE_MARKER" by auto
    then show ?thesis using xs by (simp add: wire_not_marker)
  qed
  with all show ?case
    by (subst from_json.simps) (auto simp: isinstance_list_def elements_def)
next
  case (PDict kvs)
  have "from_json env (wire (snd kv)) s = (Inr (snd kv), s)" if "kv \<in> set kvs" for kv
  proof (rule PDict.IH(2) [OF that])
    show "snd kv \<in> Basic_BNFs.snds kv" by (cases kv) simp
    from PDict.prems that show "plain (snd kv)" "unambiguous (snd kv)"
      by (simp_all add: list_all_iff)
  qed
  then have "map_action (\<lambda>kv u. from_json env (snd kv) u)
               (map (\<lambda>kv. (fst kv, wire (snd kv))) kvs) s = (Inr (map snd kvs), s)"
    by (intro map_action_map) simp
  moreover from PDict.prems
  have "map_of (map (\<lambda>kv. (fst kv, wire (snd kv))) kvs) (PStr TYPE_NAME_KEY) = None"
    by (simp add: map_of_wire_keys)
  moreover from PDict.prems have "dict_build kvs = kvs"
    by (simp add: dict_build_distinct)
  ultimately show ?case
    by (subst from_json.simps)
       (simp add: isinstance_list_def isinstance_dict_def dict_items_def comp_def zip_map_fst_snd)
qed (subst from_json.simps, simp add: isinstance_list_def isinstance_dict_def)+

text \<open>
  Claim C1, as amended. For every plain value \<open>x\<close> (primitives, lists, tuples and dicts
  with string keys) that holds no empty tuple, no list starting with the string
  \<^verbatim>\<open>'__tuple__'\<close> and no dict with the key \<^verbatim>\<open>'_type'\<close>, \<^verbatim>\<open>to_json(x)\<close> returns, and
  \<^verbatim>\<open>from_json\<close> of what it returns is \<open>x\<close> again, tuples as tuples and lists as lists;
  neither call touches the symbol cache.
\<close>

theorem roundtrip_plain_unambiguous:
  assumes "plain x" and "unambiguous x" and "2 * size x < n"
  shows "\<exists>j. to_json env n x kw s = Some (Inr j, s) \<and> from_json env j s = (Inr x, s)"
  using assms to_json_plain [of x n env kw s] from_json_wire [of x env s] by blast

theorem roundtrip_plain_unambiguous_witness:
  "plain sample_value \<and> unambiguous sample_value \<and> 2 * size sample_value < 30
   \<and> (\<exists>j. to_json empty_env 30 sample_value [] [] = Some (Inr j, [])
          \<and> from_json empty_env j [] = (Inr sample_value, []))"
proof -
  have p: "plain sample_value" by (simp add: sample_value_def is_str_def)
  have u: "unambiguous sample_value" by (simp add: sample_value_def)
  have d: "2 * size sample_value < 30" by (simp add: sample_value_def)
  from roundtrip_plain_unambiguous [OF p u d] p u d show ?thesis by blast
qed

text \<open>
  The claim as stated fails at the two values it names: the empty tuple serializes to
  \<^verbatim>\<open>['__tuple__']\<close>, which \<^verbatim>\<open>from_json\<close> rejects with \<^verbatim>\<open>ValueError\<close>; and the list
  \<^verbatim>\<open>['__tuple__', 1]\<close> serializes to itself and comes back as the tuple \<^verbatim>\<open>(1,)\<close>.
\<close>

theorem roundtrip_counterexample:
  "plain (PTuple [])
   \<and> to_json empty_env 3 (PTuple []) [] [] = Some (Inr (PList [PStr TUPLE_MARKER]), [])
   \<and> from_json empty_env (PList [PStr TUPLE_MARKER]) [] = (Inl ValueError, [])
   \<and> plain (PList [PStr TUPLE_MARKER, PInt 1])
   \<and> to_json empty_env 3 (PList [PStr TUPLE_MARKER, PInt 1]) [] []
       = Some (Inr (PList [PStr TUPLE_MARKER, PInt 1]), [])
   \<and> from_json empty_env (PList [PStr TUPLE_MARKER, PInt 1]) [] = (Inr (PTuple [PInt 1]), [])"
  by code_simp

section \<open>Automatic registration\<close>

text \<open>
  Claim C6, as amended. Defining a subclass of \<^verbatim>\<open>JSONConvertible\<close> that is not abstract
  and whose \<^verbatim>\<open>auto_register\<close> is true registers it, at class-definition time, under
  its \<^verbatim>\<open>type_name\<close> class attribute when it has one and under its fully-qualified
  dotted name otherwise, replacing whatever class had that name; an abstract class or
  one that opts out leaves the registry as it is. \<^verbatim>\<open>register\<close> changes the class of an
  existing entry only when \<^verbatim>\<open>override_existing\<close> is true.
\<close>

theorem init_subclass_registers:
  "(\<not> cls_abstract cls \<and> cls_auto_register cls \<longrightarrow>
      init_subclass reg cls
        = (Inr (), dict_set (case cls_type_name cls of Some n \<Rightarrow> n | None \<Rightarrow> cls_type_id cls)
                     cls reg)
      \<and> class_from_typename (snd (init_subclass reg cls))
            (case cls_type_name cls of Some n \<Rightarrow> n | None \<Rightarrow> cls_type_id cls) = Some cls)
   \<and> (cls_abstract cls \<or> \<not> cls_auto_register cls \<longrightarrow> init_subclass reg cls = (Inr (), reg))
   \<and> (class_from_typename reg type_name = Some old
        \<and> class_from_typename (snd (register reg type_name cls override_existing)) type_name
            \<noteq> Some old
        \<longrightarrow> override_existing)"
  by (auto simp: init_subclass_def register_def class_from_typename_def map_of_dict_set
      dict_contains_def)

theorem init_subclass_registers_witness:
  "\<not> cls_abstract cls_mA \<and> cls_auto_register cls_mA
   \<and> init_subclass [] cls_mA = (Inr (), [(''m.A'', cls_mA)])
   \<and> class_from_typename (snd (init_subclass [] cls_mA)) ''m.A'' = Some cls_mA
   \<and> class_from_typename [(''A'', cls_mA)] ''A'' = Some cls_mA
   \<and> class_from_typename (snd (register [(''A'', cls_mA)] ''A'' cls_mB True)) ''A'' \<noteq> Some cls_mA"
  using init_subclass_registers [of cls_mA "[]" "''A''" cls_mA True]
  by (simp add: cls_mA_def cls_mB_def cls_type_id_def type_name_of_def class_from_typename_def
      register_def dict_contains_def)

text \<open>
  The claim as stated fails for a class with a \<^verbatim>\<open>type_name\<close> attribute: the class
  \<^verbatim>\<open>m.B\<close> with \<^verbatim>\<open>type_name = 'A'\<close> is registered under \<^verbatim>\<open>'A'\<close>, not under \<^verbatim>\<open>'m.B'\<close>.
\<close>

theorem init_subclass_counterexample:
  "\<not> cls_abstract cls_mB \<and> cls_auto_register cls_mB \<and> cls_type_id cls_mB = ''m.B''
   \<and> init_subclass [] cls_mB = (Inr (), [(''A'', cls_mB)])
   \<and> \<not> is_registered (snd (init_subclass [] cls_mB)) ''m.B''"
  by (simp add: init_subclass_def register_def cls_mB_def cls_type_id_def type_name_of_def
      is_registered_def dict_contains_def)

section \<open>Symbol resolution\<close>

lemma split_dot_nonempty: "split_dot s \<noteq> []"
  by (induction s) (auto split: list.splits)

lemma join_dot_cons_char: "join_dot ((c # w) # ws) = c # join_dot (w # ws)"
  by (cases ws) simp_all

lemma join_dot_split_dot: "join_dot (split_dot s) = s"
proof (induction s)
  case Nil
  then show ?case by simp
next
  case (Cons c cs)
  obtain w ws where split: "split_dot cs = w # ws"
    using split_dot_nonempty [of cs] by (cases "split_dot cs") auto
  with Cons show ?case by (simp add: join_dot_cons_char)
qed

lemma join_dot_append:
  "xs \<noteq> [] \<Longrightarrow> ys \<noteq> [] \<Longrightarrow> join_dot (xs @ ys) = join_dot xs @ ''.'' @ join_dot ys"
proof (induction xs rule: join_dot.induct)
  case 1
  then show ?case by simp
next
  case (2 w)
  then show ?case by (cases ys) simp_all
next
  case (3 w v vs)
  then show ?case by simp
qed

lemma length_join_dot:
  "length (join_dot xs) = sum_list (map length xs) + (length xs - 1)"
  by (induction xs rule: join_dot.induct) simp_all

lemma split_dot_join_dot:
  "names \<noteq> [] \<Longrightarrow> \<forall>name \<in> set names. CHR ''.'' \<notin> set name \<Longrightarrow>
   split_dot (join_dot names) = names"
proof (induction names rule: join_dot.induct)
  case 1
  then show ?case by simp
next
  case (2 w)
  then show ?case by (induction w) auto
next
  case (3 w v vs)
  then have rest: "split_dot (join_dot (v # vs)) = v # vs" by simp
  from 3(3) have "CHR ''.'' \<notin> set w" by simp
  then have "split_dot (w @ ''.'' @ join_dot (v # vs)) = w # v # vs"
    using rest by (induction w) auto
  then show ?case by simp
qed

lemma join_dot_take_module_text:
  assumes "k < length (split_dot s)"
  shows "join_dot (take k (split_dot s)) = module_text s (split_dot s) k"
proof (cases k)
  case 0
  then show ?thesis by (simp add: module_text_def)
next
  case (Suc k')
  let ?front = "take k (split_dot s)"
  let ?behind = "drop k (split_dot s)"
  from assms Suc have ne: "?front \<noteq> []" "?behind \<noteq> []" by auto
  have "s = join_dot (?front @ ?behind)" by (simp add: join_dot_split_dot)
  also have "\<dots> = join_dot ?front @ ''.'' @ join_dot ?behind"
    using ne by (rule join_dot_append)
  finally have s: "s = join_dot ?front @ ''.'' @ join_dot ?behind" .
  from assms have "length ?front = k" by simp
  then have len: "length (join_dot ?front) = sum_list (map length ?front) + (k - 1)"
    by (simp add: length_join_dot)
  have "take (length (join_dot ?front)) (join_dot ?front @ ''.'' @ join_dot ?behind)
          = join_dot ?front" by simp
  with s have "take (length (join_dot ?front)) s = join_dot ?front" by simp
  with len show ?thesis by (simp add: module_text_def)
qed

lemma isupper_latin1:
  "isupper (CHR ''A'') \<and> isupper (CHR 0xC4) \<and> \<not> isupper (CHR 0xD7) \<and> \<not> isupper (CHR ''a'')"
  by (simp add: isupper_def)

lemma find_module_end_first_upper:
  "[] \<notin> set names \<Longrightarrow>
   find_module_end i names = Inr (map_option (\<lambda>k. i + k) (first_upper names))"
proof (induction names arbitrary: i)
  case Nil
  then show ?case by simp
next
  case (Cons name names)
  then obtain c cs where name: "name = c # cs" by (cases name) auto
  from Cons.prems have "[] \<notin> set names" by simp
  from Cons.IH [OF this, of "Suc i"] name show ?case
    by (simp add: starts_upper_def option.map_comp comp_def)
qed

lemma first_upper_bound: "first_upper names = Some p \<Longrightarrow> p < length names"
  by (induction names arbitrary: p) (auto split: if_splits)

lemma first_upper_snoc:
  "first_upper (names @ [final]) =
     (case first_upper names of
        Some p \<Rightarrow> Some p
      | None \<Rightarrow> if starts_upper final then Some (length names) else None)"
  by (induction names) (auto split: option.splits)

lemma lookup_chain_snoc:
  "lookup_chain env parent (names @ [final]) =
     (case lookup_chain env parent names of
        Inl e \<Rightarrow> Inl e
      | Inr p \<Rightarrow> getattr env p final)"
  by (induction names arbitrary: parent) (auto split: sum.splits)

lemma chain_start_snoc:
  "chain_start (names @ [final]) =
     (case first_upper names of Some p \<Rightarrow> p | None \<Rightarrow> length names)"
  by (simp add: chain_start_def first_upper_snoc split: option.splits)

lemma load_symbol_hit:
  "map_of loaded type_name = Some found \<Longrightarrow> found \<noteq> PNone \<Longrightarrow>
   load_symbol env type_name loaded = (Inr found, loaded)"
  by (simp add: load_symbol_def)

lemma load_symbol_miss:
  assumes miss: "map_of loaded type_name = None \<or> map_of loaded type_name = Some PNone"
    and segs: "[] \<notin> set (split_dot type_name)"
  shows "load_symbol env type_name loaded =
           (case resolve_by_capital env type_name of
              Inl e \<Rightarrow> (Inl e, loaded)
            | Inr found \<Rightarrow> (Inr found, dict_set type_name found loaded))"
proof -
  define names where "names = butlast (split_dot type_name)"
  define final where "final = last (split_dot type_name)"
  have split: "split_dot type_name = names @ [final]"
    by (simp add: names_def final_def split_dot_nonempty)
  from segs split have "[] \<notin> set names" by simp
  then have scan: "find_module_end 0 names = Inr (first_upper names)"
    using find_module_end_first_upper [of names 0] by (simp add: option.map_ident)
  from miss have cached: "(case map_of loaded type_name of Some c \<Rightarrow> c | None \<Rightarrow> PNone) = PNone"
    by auto
  have mtext: "module_text type_name (names @ [final]) k = join_dot (take k names)"
    if "k \<le> length names" for k
    using join_dot_take_module_text [of k type_name] that split by simp
  show ?thesis
  proof (cases "first_upper names")
    case None
    then show ?thesis
      using cached scan split mtext [of "length names"]
      by (simp add: load_symbol_def resolve_by_capital_def chain_start_snoc
          names_def [symmetric] final_def [symmetric] split: sum.splits)
  next
    case (Some p)
    then have "p < length names" by (rule first_upper_bound)
    then show ?thesis
      using cached scan split Some mtext [of p]
      by (simp add: load_symbol_def resolve_by_capital_def chain_start_snoc lookup_chain_snoc
          names_def [symmetric] final_def [symmetric] split: sum.splits)
  qed
qed

text \<open>
  Claim C8, as amended. A name that the cache holds is returned from the cache, with no
  resolution. For a dotted name with no empty segment that the cache does not hold,
  \<^verbatim>\<open>_load_symbol\<close> does what the specification describes, wherever the first
  capitalised segment stands (in the module path or at the end): it imports the part of
  the name before the first capitalised segment as a module and walks the rest, the
  final segment included, by attribute lookup; the symbol found is stored in the cache,
  and a failure leaves the cache as it was.
\<close>

theorem load_symbol_resolves_by_capital:
  "(map_of loaded type_name = Some cached \<and> cached \<noteq> PNone \<longrightarrow>
      load_symbol env type_name loaded = (Inr cached, loaded))
   \<and> ((map_of loaded type_name = None \<or> map_of loaded type_name = Some PNone)
       \<and> [] \<notin> set (split_dot type_name) \<longrightarrow>
      load_symbol env type_name loaded =
        (case resolve_by_capital env type_name of
           Inl e \<Rightarrow> (Inl e, loaded)
         | Inr found \<Rightarrow> (Inr found, dict_set type_name found loaded)))"
  using load_symbol_hit [of loaded type_name cached env]
    load_symbol_miss [of loaded type_name env]
  by blast

theorem load_symbol_resolves_by_capital_witness:
  "(map_of ([] :: cache) ''pkg.mod.A.x'' = None
      \<or> map_of ([] :: cache) ''pkg.mod.A.x'' = Some PNone)
   \<and> [] \<notin> set (split_dot ''pkg.mod.A.x'')
   \<and> module_text ''pkg.mod.A.x'' (split_dot ''pkg.mod.A.x'') 2 = ''pkg.mod''
   \<and> load_symbol sample_env ''pkg.mod.A.x'' []
       = (Inr (PMethod ''m'' ''A.x'' (PType cls_mA)),
          [(''pkg.mod.A.x'', PMethod ''m'' ''A.x'' (PType cls_mA))])
   \<and> map_of [(''pkg.mod.A.x'', PMethod ''m'' ''A.x'' (PType cls_mA))] ''pkg.mod.A.x''
       = Some (PMethod ''m'' ''A.x'' (PType cls_mA))
   \<and> PMethod ''m'' ''A.x'' (PType cls_mA) \<noteq> PNone
   \<and> load_symbol empty_env ''pkg.mod.A.x''
        [(''pkg.mod.A.x'', PMethod ''m'' ''A.x'' (PType cls_mA))]
       = (Inr (PMethod ''m'' ''A.x'' (PType cls_mA)),
          [(''pkg.mod.A.x'', PMethod ''m'' ''A.x'' (PType cls_mA))])
   \<and> [] \<notin> set (split_dot (''m.'' @ [CHR 0xC4] @ ''x.y''))
   \<and> load_symbol sample_env (''m.'' @ [CHR 0xC4] @ ''x.y'') [] = (Inl AttributeError, [])"
proof -
  let ?x = "PMethod ''m'' ''A.x'' (PType cls_mA)"
  have miss: "map_of ([] :: cache) ''pkg.mod.A.x'' = None
                \<or> map_of ([] :: cache) ''pkg.mod.A.x'' = Some PNone"
    by simp
  have segs: "[] \<notin> set (split_dot ''pkg.mod.A.x'')" by simp
  have mt: "module_text ''pkg.mod.A.x'' (split_dot ''pkg.mod.A.x'') 2 = ''pkg.mod''"
    by (simp add: module_text_def)
  have res: "resolve_by_capital sample_env ''pkg.mod.A.x'' = Inr ?x"
    by (simp add: resolve_by_capital_def chain_start_def starts_upper_def isupper_def
        module_text_def sample_env_def)
  from load_symbol_resolves_by_capital [of "[]" "''pkg.mod.A.x''" _ sample_env] miss segs
  have "load_symbol sample_env ''pkg.mod.A.x'' [] =
        (case resolve_by_capital sample_env ''pkg.mod.A.x'' of
           Inl e \<Rightarrow> (Inl e, [])
         | Inr found \<Rightarrow> (Inr found, dict_set ''pkg.mod.A.x'' found []))"
    by blast
  with res have fresh: "load_symbol sample_env ''pkg.mod.A.x'' []
                          = (Inr ?x, [(''pkg.mod.A.x'', ?x)])" by simp
  have hit: "map_of [(''pkg.mod.A.x'', ?x)] ''pkg.mod.A.x'' = Some ?x" by simp
  have nn: "?x \<noteq> PNone" by simp
  from load_symbol_resolves_by_capital
         [of "[(''pkg.mod.A.x'', ?x)]" "''pkg.mod.A.x''" ?x empty_env] hit nn
  have again: "load_symbol empty_env ''pkg.mod.A.x'' [(''pkg.mod.A.x'', ?x)]
                 = (Inr ?x, [(''pkg.mod.A.x'', ?x)])" by blast
  let ?latin = "''m.'' @ [CHR 0xC4] @ ''x.y''"
  have lmiss: "map_of ([] :: cache) ?latin = None \<or> map_of ([] :: cache) ?latin = Some PNone"
    by simp
  have lsegs: "[] \<notin> set (split_dot ?latin)" by simp
  have lres: "resolve_by_capital sample_env ?latin = Inl AttributeError"
    by (simp add: resolve_by_capital_def chain_start_def starts_upper_def isupper_def
        module_text_def sample_env_def)
  from load_symbol_resolves_by_capital [of "[]" ?latin _ sample_env] lmiss lsegs
  have "load_symbol sample_env ?latin [] =
        (case resolve_by_capital sample_env ?latin of
           Inl e \<Rightarrow> (Inl e, [])
         | Inr found \<Rightarrow> (Inr found, dict_set ?latin found []))"
    by blast
  with lres have latin: "load_symbol sample_env ?latin [] = (Inl AttributeError, [])" by simp
  from miss segs mt fresh hit nn again lsegs latin show ?thesis by blast
qed

text \<open>
  The claim as stated fails in two ways. A cached name is not resolved: once
  \<^verbatim>\<open>m.A.x\<close> has been loaded while \<^verbatim>\<open>x\<close> was 7, \<^verbatim>\<open>_load_symbol\<close> keeps returning 7,
  whatever importing \<^verbatim>\<open>m\<close> and walking \<^verbatim>\<open>A\<close> and \<^verbatim>\<open>x\<close> now reaches. And on a name with an
  empty segment before the first capitalised one, \<^verbatim>\<open>name[0]\<close> raises \<^verbatim>\<open>IndexError\<close>
  during the scan, before any module is imported.
\<close>

theorem load_symbol_counterexample:
  "load_symbol earlier_env ''m.A.x'' [] = (Inr (PInt 7), [(''m.A.x'', PInt 7)])
   \<and> load_symbol sample_env ''m.A.x'' [(''m.A.x'', PInt 7)]
       = (Inr (PInt 7), [(''m.A.x'', PInt 7)])
   \<and> resolve_by_capital sample_env ''m.A.x'' = Inr (PMethod ''m'' ''A.x'' (PType cls_mA))
   \<and> load_symbol sample_env ''m..A'' [] = (Inl IndexError, [])
   \<and> resolve_by_capital sample_env ''m..A'' = Inl ImportError"
  by (simp add: load_symbol_def resolve_by_capital_def chain_start_def starts_upper_def
      isupper_def module_text_def sample_env_def earlier_env_def Let_def)

section \<open>Dispatch of serialization\<close>

text \<open>
  Claim C3. \<^verbatim>\<open>to_json\<close> treats its input as a member of the first category, in the
  order primitive, convertible object, tuple, list, dict, type, builtin function, plain
  function, method, whose test the value passes, and falls back on \<^verbatim>\<open>TYPE_CONVERTER\<close>
  when it passes none; so for a value of several categories the earliest one decides.
\<close>

theorem to_json_dispatch_precedence:
  "to_json env (Suc n) value kw s = to_json_by_precedence env n value kw s"
  by (simp add: to_json_by_precedence_def precedence_def convert_fallback_def)

theorem to_json_dispatch_precedence_witness:
  "filter (\<lambda>c. matches c convertible_tuple) precedence = [Convertible, Tuple]
   \<and> to_json sample_env (Suc 0) convertible_tuple [] []
       = Some (Inr (PDict [(PStr TYPE_NAME_KEY, PStr ''m.A'')]), [])
   \<and> filter (\<lambda>c. matches c convertible_str) precedence = [Primitive, Convertible]
   \<and> to_json sample_env (Suc 0) convertible_str [] [] = Some (Inr convertible_str, [])"
  using to_json_dispatch_precedence [of sample_env 0 convertible_tuple "[]" "[]"]
    to_json_dispatch_precedence [of sample_env 0 convertible_str "[]" "[]"]
  by (simp add: to_json_by_precedence_def precedence_def convertible_tuple_def
      convertible_str_def cls_mA_def sample_env_def isinstance_primitive_def
      isinstance_tuple_def isinstance_list_def isinstance_dict_def isinstance_type_def
      isbuiltin_def isfunction_def ismethod_def)

section \<open>Serialization of dicts\<close>

lemma map_fuel_length:
  "map_fuel f xs s = Some (Inr ys, s') \<Longrightarrow> length ys = length xs"
proof (induction xs arbitrary: s ys)
  case Nil
  then show ?case by simp
next
  case (Cons x xs)
  then show ?case
    by (auto split: option.splits prod.splits sum.splits)
qed

lemma dict_build_zip_keys:
  "distinct (map fst kvs) \<Longrightarrow> length js = length kvs \<Longrightarrow>
   dict_build (zip (map fst kvs) js) = zip (map fst kvs) js"
  by (rule dict_build_distinct) simp

text \<open>
  Claim C9. On a dict (an instance of \<^verbatim>\<open>dict\<close> that is not a convertible object), with
  keys of any type, \<^verbatim>\<open>to_json\<close> serializes the values in order and nothing else: it
  returns no result or raises exactly when the serialization of the values does, and
  otherwise returns a dict with the keys of the input, unchanged and in the same order,
  each with the serialization of its value.
\<close>

theorem to_json_dict_values_only:
  assumes "base_of d = PDict kvs" and "\<not> isinstance_convertible d"
    and "distinct (map fst kvs)"
  shows "to_json env (Suc n) d kw s =
           (case map_fuel (\<lambda>kv. to_json env n (snd kv) kw) kvs s of
              None \<Rightarrow> None
            | Some (Inl e, s') \<Rightarrow> Some (Inl e, s')
            | Some (Inr js, s') \<Rightarrow> Some (Inr (PDict (zip (map fst kvs) js)), s'))
         \<and> (\<forall>js s'. map_fuel (\<lambda>kv. to_json env n (snd kv) kw) kvs s = Some (Inr js, s')
               \<longrightarrow> map fst (zip (map fst kvs) js) = map fst kvs)"
proof -
  have keys: "dict_build (zip (map fst kvs) js) = zip (map fst kvs) js
              \<and> map fst (zip (map fst kvs) js) = map fst kvs"
    if "map_fuel (\<lambda>kv. to_json env n (snd kv) kw) kvs s = Some (Inr js, s')" for js s'
    using map_fuel_length [OF that] assms(3) by (simp add: dict_build_zip_keys)
  from assms(1,2) have "to_json env (Suc n) d kw s =
           (case map_fuel (\<lambda>kv. to_json env n (snd kv) kw) kvs s of
              None \<Rightarrow> None
            | Some (Inl e, s') \<Rightarrow> Some (Inl e, s')
            | Some (Inr js, s') \<Rightarrow> Some (Inr (PDict (dict_build (zip (map fst kvs) js))), s'))"
    by (simp add: isinstance_primitive_def isinstance_tuple_def isinstance_list_def
        isinstance_dict_def dict_items_def split: option.splits prod.splits sum.splits)
  with keys show ?thesis
    by (auto split: option.splits prod.splits sum.splits)
qed

theorem to_json_dict_values_only_witness:
  "base_of int_keyed_dict = PDict [(PInt 1, PTuple [PInt 2]), (PTuple [PStr ''k''], PStr ''v'')]
   \<and> \<not> isinstance_convertible int_keyed_dict
   \<and> distinct (map fst [(PInt 1, PTuple [PInt 2]), (PTuple [PStr ''k''], PStr ''v'')])
   \<and> to_json empty_env 4 int_keyed_dict [] []
       = Some (Inr (PDict [(PInt 1, PList [PStr TUPLE_MARKER, PInt 2]),
                           (PTuple [PStr ''k''], PStr ''v'')]), [])"
proof -
  have b: "base_of int_keyed_dict
             = PDict [(PInt 1, PTuple [PInt 2]), (PTuple [PStr ''k''], PStr ''v'')]"
    by (simp add: int_keyed_dict_def)
  have c: "\<not> isinstance_convertible int_keyed_dict" by (simp add: int_keyed_dict_def)
  have k: "distinct (map fst [(PInt 1, PTuple [PInt 2]), (PTuple [PStr ''k''], PStr ''v'')])"
    by simp
  have fuel: "(4::nat) = Suc 3" by simp
  have vals: "map_fuel (\<lambda>kv. to_json empty_env 3 (snd kv) [])
                  [(PInt 1, PTuple [PInt 2]), (PTuple [PStr ''k''], PStr ''v'')] []
                = Some (Inr [PList [PStr TUPLE_MARKER, PInt 2], PStr ''v''], [])"
    by code_simp
  from to_json_dict_values_only [OF b c k, of empty_env 3 "[]" "[]"] vals b c k
  show ?thesis unfolding fuel by simp
qed

section \<open>The default \<^verbatim>\<open>from_json\<close> class method\<close>

lemma map_action_length:
  "map_action f xs s = (Inr ys, s') \<Longrightarrow> length ys = length xs"
proof (induction xs arbitrary: s ys)
  case Nil
  then show ?case by simp
next
  case (Cons x xs)
  then show ?case
    by (auto split: prod.splits sum.splits)
qed

lemma keyword_args_strings:
  "length vs = length names \<Longrightarrow> keyword_args (zip (map PStr names) vs) = Some (zip names vs)"
proof (induction names arbitrary: vs)
  case Nil
  then show ?case by simp
next
  case (Cons name names)
  then obtain v vs' where "vs = v # vs'" by (cases vs) auto
  with Cons show ?case by simp
qed

lemma filter_str_keys:
  "map fst kvs = map PStr names \<Longrightarrow>
   map fst (filter (\<lambda>kv. fst kv \<noteq> PStr k) kvs) = map PStr (filter (\<lambda>n. n \<noteq> k) names)"
proof (induction kvs arbitrary: names)
  case Nil
  then show ?case by simp
next
  case (Cons kv kvs)
  then obtain n ns where "names = n # ns" by (cases names) auto
  with Cons show ?case by auto
qed

text \<open>
  Claim C10. The default \<^verbatim>\<open>JSONConvertible.from_json\<close> ignores its keyword flags and
  raises \<^verbatim>\<open>AssertionError\<close> when \<^verbatim>\<open>json_value\<close> is not a dict. On a dict (with string
  keys, as a JSON object has) it deserializes, in order, the value of every key but
  \<^verbatim>\<open>_type\<close>, raises what that raises, and otherwise returns \<^verbatim>\<open>cls(**kwargs)\<close>, where
  \<^verbatim>\<open>kwargs\<close> maps every key of \<^verbatim>\<open>json_value\<close> but \<^verbatim>\<open>_type\<close> to its deserialized value.
\<close>

theorem convertible_from_json_default:
  "convertible_from_json env cls json_value kwargs s
     = convertible_from_json env cls json_value [] s
   \<and> (\<not> isinstance_dict json_value \<longrightarrow>
        convertible_from_json env cls json_value kwargs s = (Inl AssertionError, s))
   \<and> (base_of json_value = PDict kvs \<and> map fst kvs = map PStr names \<and> distinct names \<longrightarrow>
        convertible_from_json env cls json_value kwargs s =
          (case map_action (\<lambda>kv u. from_json env (snd kv) u)
                  (filter (\<lambda>kv. fst kv \<noteq> PStr TYPE_NAME_KEY) kvs) s of
             (Inl e, s') \<Rightarrow> (Inl e, s')
           | (Inr vs, s') \<Rightarrow>
               (construct env cls (zip (filter (\<lambda>n. n \<noteq> TYPE_NAME_KEY) names) vs), s')))"
proof (intro conjI impI)
  show "convertible_from_json env cls json_value kwargs s
          = convertible_from_json env cls json_value [] s"
    by (simp add: convertible_from_json.simps)
next
  assume "\<not> isinstance_dict json_value"
  then show "convertible_from_json env cls json_value kwargs s = (Inl AssertionError, s)"
    by (simp add: convertible_from_json.simps)
next
  assume a: "base_of json_value = PDict kvs \<and> map fst kvs = map PStr names \<and> distinct names"
  let ?rest = "filter (\<lambda>kv. fst kv \<noteq> PStr TYPE_NAME_KEY) kvs"
  let ?keep = "filter (\<lambda>n. n \<noteq> TYPE_NAME_KEY) names"
  from a have keys: "map fst ?rest = map PStr ?keep" by (simp add: filter_str_keys)
  from a have "distinct ?keep" by simp
  then have dist: "distinct (map PStr ?keep)" by (simp add: distinct_map inj_on_def)
  have call: "call_with_kwargs env cls (dict_build (zip (map fst ?rest) vs))
                = construct env cls (zip ?keep vs)"
    if "map_action (\<lambda>kv u. from_json env (snd kv) u) ?rest s = (Inr vs, s')" for vs s'
  proof -
    from map_action_length [OF that] keys have len: "length vs = length ?keep"
      by (metis length_map)
    then have "distinct (map fst (zip (map PStr ?keep) vs))" using dist by simp
    then have "dict_build (zip (map PStr ?keep) vs) = zip (map PStr ?keep) vs"
      by (rule dict_build_distinct)
    with len keys show ?thesis
      by (simp add: call_with_kwargs_def keyword_args_strings)
  qed
  from a have "isinstance_dict json_value" "dict_items json_value = kvs"
    by (simp_all add: isinstance_dict_def dict_items_def)
  with call show "convertible_from_json env cls json_value kwargs s =
          (case map_action (\<lambda>kv u. from_json env (snd kv) u) ?rest s of
             (Inl e, s') \<Rightarrow> (Inl e, s')
           | (Inr vs, s') \<Rightarrow> (construct env cls (zip ?keep vs), s'))"
    by (simp add: convertible_from_json.simps split: prod.splits sum.splits)
qed

lemma construct_sample_env: "construct sample_env cls args = Inr (PInst cls (PObject args))"
  by (simp add: sample_env_def)

theorem convertible_from_json_default_witness:
  "\<not> isinstance_dict (PInt 3)
   \<and> convertible_from_json sample_env cls_mA (PInt 3) [(''flag'', PBool True)] []
       = (Inl AssertionError, [])
   \<and> base_of sample_json
       = PDict [(PStr TYPE_NAME_KEY, PStr ''m.A''), (PStr ''x'', PInt 1),
                (PStr ''y'', PList [PStr TUPLE_MARKER, PInt 2, PInt 3])]
   \<and> distinct [TYPE_NAME_KEY, ''x'', ''y'']
   \<and> convertible_from_json sample_env cls_mA sample_json [(''flag'', PBool True)] []
       = (Inr (PInst cls_mA (PObject [(''x'', PInt 1), (''y'', PTuple [PInt 2, PInt 3])])), [])"
proof -
  have n: "\<not> isinstance_dict (PInt 3)" by (simp add: isinstance_dict_def)
  have b: "base_of sample_json
       = PDict [(PStr TYPE_NAME_KEY, PStr ''m.A''), (PStr ''x'', PInt 1),
                (PStr ''y'', PList [PStr TUPLE_MARKER, PInt 2, PInt 3])]"
    by (simp add: sample_json_def)
  have k: "map fst [(PStr TYPE_NAME_KEY, PStr ''m.A''), (PStr ''x'', PInt 1),
                (PStr ''y'', PList [PStr TUPLE_MARKER, PInt 2, PInt 3])]
            = map PStr [TYPE_NAME_KEY, ''x'', ''y'']" by simp
  have d: "distinct [TYPE_NAME_KEY, ''x'', ''y'']" by simp
  have vals: "map_action (\<lambda>kv u. from_json sample_env (snd kv) u)
               [(PStr ''x'', PInt 1), (PStr ''y'', PList [PStr TUPLE_MARKER, PInt 2, PInt 3])] []
             = (Inr [PInt 1, PTuple [PInt 2, PInt 3]], [])"
    by code_simp
  from convertible_from_json_default
         [of sample_env cls_mA "PInt 3" "[(''flag'', PBool True)]" "[]"] n
  have first: "convertible_from_json sample_env cls_mA (PInt 3) [(''flag'', PBool True)] []
       = (Inl AssertionError, [])" by blast
  have "convertible_from_json sample_env cls_mA sample_json [(''flag'', PBool True)] [] =
          (case map_action (\<lambda>kv u. from_json sample_env (snd kv) u)
                  (filter (\<lambda>kv. fst kv \<noteq> PStr TYPE_NAME_KEY)
                     [(PStr TYPE_NAME_KEY, PStr ''m.A''), (PStr ''x'', PInt 1),
                      (PStr ''y'', PList [PStr TUPLE_MARKER, PInt 2, PInt 3])]) [] of
             (Inl e, s') \<Rightarrow> (Inl e, s')
           | (Inr vs, s') \<Rightarrow>
               (construct sample_env cls_mA
                  (zip (filter (\<lambda>n. n \<noteq> TYPE_NAME_KEY) [TYPE_NAME_KEY, ''x'', ''y'']) vs), s'))"
    using convertible_from_json_default
         [of sample_env cls_mA sample_json "[(''flag'', PBool True)]" "[]"
             "[(PStr TYPE_NAME_KEY, PStr ''m.A''), (PStr ''x'', PInt 1),
                (PStr ''y'', PList [PStr TUPLE_MARKER, PInt 2, PInt 3])]"
             "[TYPE_NAME_KEY, ''x'', ''y'']"] b k d by blast
  with vals
  have second: "convertible_from_json sample_env cls_mA sample_json [(''flag'', PBool True)] []
       = (Inr (PInst cls_mA (PObject [(''x'', PInt 1), (''y'', PTuple [PInt 2, PInt 3])])), [])"
    by (simp add: construct_sample_env)
  from n first b d second show ?thesis by blast
qed

section \<open>Functions from JSON\<close>

lemma from_json_function_dict:
  assumes "base_of json_value = PDict kvs"
    and "map_of kvs (PStr TYPE_NAME_KEY) = Some (PStr ''function'')"
  shows "from_json env json_value s = function_from_json env json_value s"
  using assms
  by (subst from_json.simps)
     (simp add: isinstance_list_def isinstance_dict_def dict_items_def)

lemma new_function_needs_no_free_variables:
  "co_freevars code \<noteq> [] \<Longrightarrow> new_function code defaults = Inl TypeError"
  by (simp add: new_function_def)

text \<open>
  Claim C4, as amended. For a mapping whose \<^verbatim>\<open>_type\<close> is \<^verbatim>\<open>"function"\<close>, with a
  \<^verbatim>\<open>name\<close> entry: when it has a \<^verbatim>\<open>code\<close> entry (a string that decodes to a code object
  without free variables) and a \<^verbatim>\<open>defaults\<close> entry that deserializes to \<^verbatim>\<open>None\<close> or a
  tuple, \<^verbatim>\<open>from_json\<close> returns a new function made of the decoded code and the
  deserialized defaults, whose global namespace is the namespace of the module
  \<^verbatim>\<open>json_conversion\<close> itself (\<^verbatim>\<open>globals()\<close>); when it has no \<^verbatim>\<open>code\<close> entry,
  \<^verbatim>\<open>from_json\<close> resolves the name with \<^verbatim>\<open>_load_symbol\<close>.
\<close>

theorem function_from_json_code_or_name:
  assumes "base_of json_value = PDict kvs"
    and "map_of kvs (PStr TYPE_NAME_KEY) = Some (PStr ''function'')"
    and "map_of kvs (PStr ''name'') = Some function_name"
  shows "(map_of kvs (PStr ''code'') = Some (PStr blob) \<and> decode_code env blob = Inr code
          \<and> co_freevars code = []
          \<and> map_of kvs (PStr ''defaults'') = Some d \<and> from_json env d s = (Inr defaults, s')
          \<and> (defaults = PNone \<or> isinstance_tuple defaults)
          \<longrightarrow> from_json env json_value s
                = (Inr (PFunction THIS_MODULE (co_qualname code) (co_name code) code defaults
                          (ModuleGlobals THIS_MODULE)), s'))
         \<and> (map_of kvs (PStr ''code'') = None
          \<longrightarrow> from_json env json_value s = load_symbol_of env function_name s)"
proof -
  from assms(1) have items: "dict_items json_value = kvs"
    by (simp add: dict_items_def)
  have step: "from_json env json_value s = function_from_json env json_value s"
    using assms(1,2) by (rule from_json_function_dict)
  show ?thesis
    unfolding step
    by (subst function_from_json.simps, subst function_from_json.simps)
       (auto simp: items assms(3) loads_code_def new_function_def)
qed

theorem function_from_json_code_or_name_witness:
  "base_of function_json
     = PDict [(PStr TYPE_NAME_KEY, PStr ''function''), (PStr ''name'', PStr ''m.f.<locals>.<lambda>''),
              (PStr ''code'', PStr ''blob''),
              (PStr ''defaults'', PList [PStr TUPLE_MARKER, PInt 1])]
   \<and> decode_code sample_env ''blob'' = Inr decoded_code
   \<and> co_freevars decoded_code = []
   \<and> from_json sample_env (PList [PStr TUPLE_MARKER, PInt 1]) [] = (Inr (PTuple [PInt 1]), [])
   \<and> isinstance_tuple (PTuple [PInt 1])
   \<and> from_json sample_env function_json []
       = (Inr (PFunction THIS_MODULE ''f.<locals>.<lambda>'' ''<lambda>'' decoded_code
                 (PTuple [PInt 1]) (ModuleGlobals THIS_MODULE)), [])"
proof -
  let ?kvs = "[(PStr TYPE_NAME_KEY, PStr ''function''), (PStr ''name'', PStr ''m.f.<locals>.<lambda>''),
              (PStr ''code'', PStr ''blob''),
              (PStr ''defaults'', PList [PStr TUPLE_MARKER, PInt 1])]"
  have b: "base_of function_json = PDict ?kvs" by (simp add: function_json_def)
  have t: "map_of ?kvs (PStr TYPE_NAME_KEY) = Some (PStr ''function'')" by simp
  have n: "map_of ?kvs (PStr ''name'') = Some (PStr ''m.f.<locals>.<lambda>'')" by simp
  have c: "map_of ?kvs (PStr ''code'') = Some (PStr ''blob'')" by simp
  have dc: "decode_code sample_env ''blob'' = Inr decoded_code"
    by (simp add: sample_env_def decoded_code_def)
  have fv: "co_freevars decoded_code = []" by (simp add: decoded_code_def)
  have d: "map_of ?kvs (PStr ''defaults'') = Some (PList [PStr TUPLE_MARKER, PInt 1])" by simp
  have fd: "from_json sample_env (PList [PStr TUPLE_MARKER, PInt 1]) [] = (Inr (PTuple [PInt 1]), [])"
    by code_simp
  have tup: "isinstance_tuple (PTuple [PInt 1])" by (simp add: isinstance_tuple_def)
  from function_from_json_code_or_name [OF b t n, of "''blob''" sample_env decoded_code
         "PList [PStr TUPLE_MARKER, PInt 1]" "[]" "PTuple [PInt 1]" "[]"] c dc fv d fd tup
  have "from_json sample_env function_json []
       = (Inr (PFunction THIS_MODULE (co_qualname decoded_code) (co_name decoded_code) decoded_code
                 (PTuple [PInt 1]) (ModuleGlobals THIS_MODULE)), [])" by blast
  then have "from_json sample_env function_json []
       = (Inr (PFunction THIS_MODULE ''f.<locals>.<lambda>'' ''<lambda>'' decoded_code
                 (PTuple [PInt 1]) (ModuleGlobals THIS_MODULE)), [])"
    by (simp add: decoded_code_def)
  with b dc fv fd tup show ?thesis by blast
qed

text \<open>
  The claim as stated fails: the function that \<^verbatim>\<open>from_json\<close> builds from an embedded
  code blob has the namespace of \<^verbatim>\<open>json_conversion\<close> as its globals, not a fresh empty
  dict.
\<close>

theorem function_from_json_counterexample:
  "from_json sample_env function_json []
     = (Inr (PFunction THIS_MODULE ''f.<locals>.<lambda>'' ''<lambda>'' decoded_code
               (PTuple [PInt 1]) (ModuleGlobals THIS_MODULE)), [])
   \<and> from_json sample_env function_json []
     \<noteq> (Inr (PFunction THIS_MODULE ''f.<locals>.<lambda>'' ''<lambda>'' decoded_code
               (PTuple [PInt 1]) (FreshGlobals [])), [])"
  by code_simp

section \<open>Equality of signatures\<close>

lemma list_eq_all2: "list_eq eq xs ys = list_all2 eq xs ys"
  by (induction eq xs ys rule: list_eq.induct) simp_all

lemma optional_eq_rel: "optional_eq eq x y = rel_option eq x y"
  by (cases x; cases y) simp_all

lemma argument_eq_structural: "argument_eq (=) a b = (a = b)"
  by (cases a; cases b) (auto simp: argument_eq_def)

lemma argument_eq_structural_fun: "argument_eq (=) = (=)"
  by (simp add: fun_eq_iff argument_eq_structural)

text \<open>
  Claim C5, as amended. A signature is not equal to anything that is not a signature,
  and is equal to itself. Two distinct \<^verbatim>\<open>Signature\<close> objects are equal if and only if
  their \<^verbatim>\<open>callable_type\<close>, \<^verbatim>\<open>name\<close>, \<^verbatim>\<open>qualname\<close>, \<^verbatim>\<open>module_name\<close>, positional
  arguments, keyword-only arguments, var-positional slot, var-keyword slot and
  \<^verbatim>\<open>return_value\<close> all match, arguments by name and value specification; when value
  specifications are compared structurally, that is when all their fields are equal.
\<close>

theorem signature_eq_all_fields:
  "\<not> signature_eq vs_eq self NotASignature
   \<and> signature_eq vs_eq self (ASignature self)
   \<and> (sig_address self \<noteq> sig_address that \<longrightarrow>
        signature_eq vs_eq self (ASignature that) =
          (sig_callable_type (sig_fields self) = sig_callable_type (sig_fields that)
           \<and> sig_name (sig_fields self) = sig_name (sig_fields that)
           \<and> sig_qualname (sig_fields self) = sig_qualname (sig_fields that)
           \<and> sig_module_name (sig_fields self) = sig_module_name (sig_fields that)
           \<and> list_all2 (argument_eq vs_eq) (sig_args (sig_fields self)) (sig_args (sig_fields that))
           \<and> list_all2 (argument_eq vs_eq) (sig_kwonlyargs (sig_fields self))
                 (sig_kwonlyargs (sig_fields that))
           \<and> rel_option (argument_eq vs_eq) (sig_varargs (sig_fields self))
                 (sig_varargs (sig_fields that))
           \<and> rel_option (argument_eq vs_eq) (sig_varkw (sig_fields self)) (sig_varkw (sig_fields that))
           \<and> rel_option vs_eq (sig_return_value (sig_fields self))
                 (sig_return_value (sig_fields that))))
   \<and> (sig_address self \<noteq> sig_address that \<longrightarrow>
        signature_eq (=) self (ASignature that) = (sig_fields self = sig_fields that))"
proof -
  have "(sig_callable_type a = sig_callable_type b \<and> sig_name a = sig_name b
         \<and> sig_qualname a = sig_qualname b \<and> sig_module_name a = sig_module_name b
         \<and> sig_args a = sig_args b \<and> sig_kwonlyargs a = sig_kwonlyargs b
         \<and> sig_varargs a = sig_varargs b \<and> sig_varkw a = sig_varkw b
         \<and> sig_return_value a = sig_return_value b) = (a = b)" for a b :: signature
    by (cases a; cases b) auto
  then show ?thesis
    by (simp add: signature_eq_def list_eq_all2 optional_eq_rel argument_eq_structural_fun
        list.rel_eq option.rel_eq)
qed

theorem signature_eq_all_fields_witness:
  "sig_address (SignatureAt 1 (sig_returning (Some int_spec)))
     \<noteq> sig_address (SignatureAt 2 (sig_returning (Some int_spec)))
   \<and> signature_eq (=) (SignatureAt 1 (sig_returning (Some int_spec)))
        (ASignature (SignatureAt 2 (sig_returning (Some int_spec))))
   \<and> signature_eq (=) (SignatureAt 1 (sig_returning None))
        (ASignature (SignatureAt 1 (sig_returning None)))"
proof -
  let ?a = "SignatureAt 1 (sig_returning (Some int_spec))"
  let ?b = "SignatureAt 2 (sig_returning (Some int_spec))"
  let ?c = "SignatureAt 1 (sig_returning None)"
  have ne: "sig_address ?a \<noteq> sig_address ?b" by simp
  from signature_eq_all_fields [of "(=)" ?a ?b] ne
  have "signature_eq (=) ?a (ASignature ?b) = (sig_fields ?a = sig_fields ?b)" by blast
  then have ab: "signature_eq (=) ?a (ASignature ?b)" by simp
  from signature_eq_all_fields [of "(=)" ?c ?c]
  have cc: "signature_eq (=) ?c (ASignature ?c)" by blast
  from ne ab cc show ?thesis by blast
qed

text \<open>
  The claim as stated leaves \<^verbatim>\<open>return_value\<close> out: two signatures that agree on every
  field the claim lists and differ in \<^verbatim>\<open>return_value\<close> are not equal.
\<close>

theorem signature_eq_counterexample:
  "sig_callable_type (sig_returning (Some int_spec)) = sig_callable_type (sig_returning (Some any_spec))
   \<and> sig_name (sig_returning (Some int_spec)) = sig_name (sig_returning (Some any_spec))
   \<and> sig_qualname (sig_returning (Some int_spec)) = sig_qualname (sig_returning (Some any_spec))
   \<and> sig_module_name (sig_returning (Some int_spec))
       = sig_module_name (sig_returning (Some any_spec))
   \<and> sig_args (sig_returning (Some int_spec)) = sig_args (sig_returning (Some any_spec))
   \<and> sig_kwonlyargs (sig_returning (Some int_spec))
       = sig_kwonlyargs (sig_returning (Some any_spec))
   \<and> sig_varargs (sig_returning (Some int_spec)) = sig_varargs (sig_returning (Some any_spec))
   \<and> sig_varkw (sig_returning (Some int_spec)) = sig_varkw (sig_returning (Some any_spec))
   \<and> \<not> signature_eq (=) (SignatureAt 1 (sig_returning (Some int_spec)))
          (ASignature (SignatureAt 2 (sig_returning (Some any_spec))))"
  by (simp add: sig_returning_def Signature_def signature_eq_def int_spec_def any_spec_def)

section \<open>Functions made from signatures\<close>

lemma fst_append_arg:
  "fst (append_arg name spec force pre st) =
     fst st @ [pre @ name @ annotation_source name spec
               @ (if pre = [] \<and> (force \<or> vs_has_default spec) then '' = _default_'' @ name else [])]"
  by (simp add: append_arg_def annotation_source_def Let_def)

lemma fst_positional_args:
  "fst (positional_args args hpd st) = fst st @ positional_sources args hpd"
  by (induction args arbitrary: hpd st) (simp_all add: fst_append_arg)

lemma length_positional_sources: "length (positional_sources args hpd) = length args"
  by (induction args arbitrary: hpd) simp_all

lemma fst_keyword_only_args_prefix:
  "\<exists>more. fst (keyword_only_args args st) = fst st @ more"
proof (induction args arbitrary: st)
  case Nil
  then show ?case by simp
next
  case (Cons arg rest)
  from Cons.IH [of "append_arg (arg_name arg) (arg_value_spec arg) False [] st"]
  obtain more where
    "fst (keyword_only_args rest (append_arg (arg_name arg) (arg_value_spec arg) False [] st))
       = fst (append_arg (arg_name arg) (arg_value_spec arg) False [] st) @ more" by blast
  then show ?case by (simp add: fst_append_arg)
qed

lemma syn_args_positional:
  "\<exists>more. syn_args (make_function self body g l) = positional_sources (sig_args self) False @ more"
proof -
  define st1 where "st1 = positional_args (sig_args self) False
                            ([], case l of None \<Rightarrow> [] | Some l \<Rightarrow> l)"
  define st2 where "st2 = (case sig_varargs self of
                   Some va \<Rightarrow> append_arg (arg_name va) (arg_value_spec va) False ''*'' st1
                 | None \<Rightarrow>
                     if sig_kwonlyargs self \<noteq> [] then (fst st1 @ [''*''], snd st1) else st1)"
  define st3 where "st3 = keyword_only_args (sig_kwonlyargs self) st2"
  define st4 where "st4 = (case sig_varkw self of
                   Some vk \<Rightarrow> append_arg (arg_name vk) (arg_value_spec vk) False ''**'' st3
                 | None \<Rightarrow> st3)"
  have 1: "fst st1 = positional_sources (sig_args self) False"
    by (simp add: st1_def fst_positional_args)
  have 2: "\<exists>more. fst st2 = fst st1 @ more"
    by (simp add: st2_def fst_append_arg split: option.splits)
  have 3: "\<exists>more. fst st3 = fst st2 @ more"
    unfolding st3_def by (rule fst_keyword_only_args_prefix)
  have 4: "\<exists>more. fst st4 = fst st3 @ more"
    by (simp add: st4_def fst_append_arg split: option.splits)
  have "syn_args (make_function self body g l) = fst st4"
    by (simp only: make_function_def Let_def st1_def st2_def st3_def st4_def
        synthesized.select_convs)
  with 1 2 3 4 show ?thesis by (metis append.assoc)
qed

lemma nth_syn_args_positional:
  "j < length (sig_args self) \<Longrightarrow>
   syn_args (make_function self body g l) ! j = positional_sources (sig_args self) False ! j"
  using syn_args_positional [of self body g l]
  by (auto simp: nth_append length_positional_sources)

lemma no_default_in_plain_source:
  "\<not> has_default_source name (name @ annotation_source name spec)"
proof (cases "vs_annotation spec = MISSING_VALUE")
  case True
  have "\<not> suffix ('' = _default_'' @ name) name"
    using suffix_length_le [of "'' = _default_'' @ name" name] by auto
  with True show ?thesis by (simp add: has_default_source_def annotation_source_def)
next
  case False
  have "\<not> suffix '' = _default_'' (name @ '': _annotation_'')"
    by (simp add: suffix_to_prefix)
  with same_suffix_suffix [of "'' = _default_''" name "name @ '': _annotation_''"]
  have "\<not> suffix ('' = _default_'' @ name) (name @ '': _annotation_'' @ name)"
    by simp
  with False show ?thesis by (simp add: has_default_source_def annotation_source_def)
qed

lemma default_in_forced_source:
  "has_default_source name (name @ annotation_source name spec @ '' = _default_'' @ name)"
proof -
  have "suffix ('' = _default_'' @ name)
          ((name @ annotation_source name spec) @ '' = _default_'' @ name)"
    by (rule suffix_appendI) simp
  then show ?thesis by (simp add: has_default_source_def)
qed

lemma positional_sources_forced:
  "j < length args \<Longrightarrow>
   has_default_source (arg_name (args ! j)) (positional_sources args True ! j)"
proof (induction args arbitrary: j)
  case Nil
  then show ?case by simp
next
  case (Cons arg rest)
  show ?case
  proof (cases j)
    case 0
    then show ?thesis
      using default_in_forced_source [of "arg_name arg" "arg_value_spec arg"] by simp
  next
    case (Suc j')
    with Cons.prems have "j' < length rest" by simp
    from Cons.IH [OF this] Suc show ?thesis by simp
  qed
qed

lemma positional_sources_default_propagates:
  "i < j \<Longrightarrow> j < length args \<Longrightarrow>
   has_default_source (arg_name (args ! i)) (positional_sources args hpd ! i) \<Longrightarrow>
   has_default_source (arg_name (args ! j)) (positional_sources args hpd ! j)"
proof (induction args arbitrary: i j hpd)
  case Nil
  then show ?case by simp
next
  case (Cons arg rest)
  from Cons.prems(1) obtain j' where j: "j = Suc j'" by (cases j) auto
  show ?case
  proof (cases i)
    case 0
    with Cons.prems(3) have "hpd \<or> vs_has_default (arg_value_spec arg)"
      using no_default_in_plain_source [of "arg_name arg" "arg_value_spec arg"]
      by (auto split: if_splits)
    moreover from Cons.prems(2) j have "j' < length rest" by simp
    ultimately show ?thesis
      using positional_sources_forced [of j' rest] j by simp
  next
    case (Suc i')
    with Cons.prems j have "i' < j'" "j' < length rest"
      "has_default_source (arg_name (rest ! i'))
         (positional_sources rest (hpd \<or> vs_has_default (arg_value_spec arg)) ! i')"
      by simp_all
    from Cons.IH [OF this] j show ?thesis by simp
  qed
qed

lemma from_callable_f:
  "from_callable from_annotation f_callable =
     Inr (Signature FUNCTION ''f'' ''m''
            (Some [\<lparr>arg_name = ''a'', arg_value_spec = from_annotation PARAMETER_EMPTY False\<rparr>,
                   \<lparr>arg_name = ''b'',
                    arg_value_spec = set_default (from_annotation (PInt 2) True) (PInt 2)\<rparr>])
            (Some [\<lparr>arg_name = ''d'', arg_value_spec = from_annotation PARAMETER_EMPTY False\<rparr>])
            (Some \<lparr>arg_name = ''c'', arg_value_spec = from_annotation PARAMETER_EMPTY False\<rparr>)
            (Some \<lparr>arg_name = ''e'', arg_value_spec = from_annotation PARAMETER_EMPTY False\<rparr>)
            None (Some ''f''))"
  by (simp add: from_callable_def f_callable_def make_arg_spec_def get_value_spec_def
      PARAMETER_EMPTY_def)

lemma make_function_f:
  assumes "\<not> vs_has_default (from_annotation PARAMETER_EMPTY False)"
    and "self = Signature FUNCTION ''f'' ''m''
            (Some [\<lparr>arg_name = ''a'', arg_value_spec = from_annotation PARAMETER_EMPTY False\<rparr>,
                   \<lparr>arg_name = ''b'',
                    arg_value_spec = set_default (from_annotation (PInt 2) True) (PInt 2)\<rparr>])
            (Some [\<lparr>arg_name = ''d'', arg_value_spec = from_annotation PARAMETER_EMPTY False\<rparr>])
            (Some \<lparr>arg_name = ''c'', arg_value_spec = from_annotation PARAMETER_EMPTY False\<rparr>)
            (Some \<lparr>arg_name = ''e'', arg_value_spec = from_annotation PARAMETER_EMPTY False\<rparr>)
            None (Some ''f'')"
  shows "syn_args (make_function self body None None)
           = [''a'' @ annotation_source ''a'' (from_annotation PARAMETER_EMPTY False),
              ''b'' @ annotation_source ''b'' (from_annotation (PInt 2) True) @ '' = _default_b'',
              ''*c'' @ annotation_source ''c'' (from_annotation PARAMETER_EMPTY False),
              ''d'' @ annotation_source ''d'' (from_annotation PARAMETER_EMPTY False),
              ''**e'' @ annotation_source ''e'' (from_annotation PARAMETER_EMPTY False)]
         \<and> map_of (syn_locals (make_function self body None None)) ''_default_b'' = Some (PInt 2)"
  unfolding assms(2) using assms(1)
  by (simp add: Signature_def make_function_def append_arg_def
      annotation_source_def set_default_def Let_def map_of_dict_set)

text \<open>
  Claim C7. From \<^verbatim>\<open>def f(a, b=2, *c, d, **e)\<close>, whatever value specifications
  \<^verbatim>\<open>from_annotation\<close> gives (without a default for a parameter that has neither default
  nor annotation), \<^verbatim>\<open>from_callable\<close> builds a signature from which \<^verbatim>\<open>make_function\<close>
  derives the parameter sources \<^verbatim>\<open>a\<close>, \<^verbatim>\<open>b = _default_b\<close>, \<^verbatim>\<open>*c\<close>, \<^verbatim>\<open>d\<close>, \<^verbatim>\<open>**e\<close> in this
  order (each with \<^verbatim>\<open>: _annotation_\<close> and its name when its specification has an
  annotation), with \<^verbatim>\<open>_default_b\<close> bound to 2 in the execution namespace. For every
  signature, the function made has the name, module and qualified name of the signature,
  and once the source of a positional argument ends with a default, so does the source
  of every later positional argument.
\<close>

theorem make_function_parameters:
  "(\<not> vs_has_default (from_annotation PARAMETER_EMPTY False) \<longrightarrow>
      (\<exists>built. from_callable from_annotation f_callable = Inr built
         \<and> syn_args (make_function built body None None)
             = [''a'' @ annotation_source ''a'' (from_annotation PARAMETER_EMPTY False),
                ''b'' @ annotation_source ''b'' (from_annotation (PInt 2) True) @ '' = _default_b'',
                ''*c'' @ annotation_source ''c'' (from_annotation PARAMETER_EMPTY False),
                ''d'' @ annotation_source ''d'' (from_annotation PARAMETER_EMPTY False),
                ''**e'' @ annotation_source ''e'' (from_annotation PARAMETER_EMPTY False)]
         \<and> map_of (syn_locals (make_function built body None None)) ''_default_b''
             = Some (PInt 2)
         \<and> sig_name built = ''f'' \<and> sig_module_name built = ''m'' \<and> sig_qualname built = ''f''))
   \<and> syn_name (make_function self body g l) = sig_name self
   \<and> syn_module (make_function self body g l) = sig_module_name self
   \<and> syn_qualname (make_function self body g l) = sig_qualname self
   \<and> (i < j \<and> j < length (sig_args self)
        \<and> has_default_source (arg_name (sig_args self ! i))
              (syn_args (make_function self body g l) ! i)
      \<longrightarrow> has_default_source (arg_name (sig_args self ! j))
              (syn_args (make_function self body g l) ! j))"
proof (intro conjI impI)
  assume nd: "\<not> vs_has_default (from_annotation PARAMETER_EMPTY False)"
  let ?built = "Signature FUNCTION ''f'' ''m''
            (Some [\<lparr>arg_name = ''a'', arg_value_spec = from_annotation PARAMETER_EMPTY False\<rparr>,
                   \<lparr>arg_name = ''b'',
                    arg_value_spec = set_default (from_annotation (PInt 2) True) (PInt 2)\<rparr>])
            (Some [\<lparr>arg_name = ''d'', arg_value_spec = from_annotation PARAMETER_EMPTY False\<rparr>])
            (Some \<lparr>arg_name = ''c'', arg_value_spec = from_annotation PARAMETER_EMPTY False\<rparr>)
            (Some \<lparr>arg_name = ''e'', arg_value_spec = from_annotation PARAMETER_EMPTY False\<rparr>)
            None (Some ''f'')"
  have "from_callable from_annotation f_callable = Inr ?built" by (rule from_callable_f)
  moreover note make_function_f [where self = ?built and from_annotation = from_annotation
      and body = body, OF nd refl]
  moreover have "sig_name ?built = ''f''" "sig_module_name ?built = ''m''"
    "sig_qualname ?built = ''f''" by (simp_all add: Signature_def)
  ultimately show "\<exists>built. from_callable from_annotation f_callable = Inr built
         \<and> syn_args (make_function built body None None)
             = [''a'' @ annotation_source ''a'' (from_annotation PARAMETER_EMPTY False),
                ''b'' @ annotation_source ''b'' (from_annotation (PInt 2) True) @ '' = _default_b'',
                ''*c'' @ annotation_source ''c'' (from_annotation PARAMETER_EMPTY False),
                ''d'' @ annotation_source ''d'' (from_annotation PARAMETER_EMPTY False),
                ''**e'' @ annotation_source ''e'' (from_annotation PARAMETER_EMPTY False)]
         \<and> map_of (syn_locals (make_function built body None None)) ''_default_b''
             = Some (PInt 2)
         \<and> sig_name built = ''f'' \<and> sig_module_name built = ''m'' \<and> sig_qualname built = ''f''"
    by blast
next
  show "syn_name (make_function self body g l) = sig_name self"
    by (simp add: make_function_def Let_def)
  show "syn_module (make_function self body g l) = sig_module_name self"
    by (simp add: make_function_def Let_def)
  show "syn_qualname (make_function self body g l) = sig_qualname self"
    by (simp add: make_function_def Let_def)
next
  assume a: "i < j \<and> j < length (sig_args self)
        \<and> has_default_source (arg_name (sig_args self ! i))
              (syn_args (make_function self body g l) ! i)"
  then have "i < length (sig_args self)" by simp
  with a have "has_default_source (arg_name (sig_args self ! i))
                 (positional_sources (sig_args self) False ! i)"
    by (simp add: nth_syn_args_positional)
  with a have "has_default_source (arg_name (sig_args self ! j))
                 (positional_sources (sig_args self) False ! j)"
    using positional_sources_default_propagates [of i j "sig_args self" False] by simp
  with a show "has_default_source (arg_name (sig_args self ! j))
              (syn_args (make_function self body g l) ! j)"
    by (simp add: nth_syn_args_positional)
qed

theorem make_function_parameters_witness:
  "\<not> vs_has_default (any_from_annotation PARAMETER_EMPTY False)
   \<and> (\<exists>built. from_callable any_from_annotation f_callable = Inr built
         \<and> syn_args (make_function built [''return a''] None None)
             = [''a'', ''b = _default_b'', ''*c'', ''d'', ''**e'']
         \<and> map_of (syn_locals (make_function built [''return a''] None None)) ''_default_b''
             = Some (PInt 2))
   \<and> (0::nat) < 1 \<and> 1 < length (sig_args sig_default_then_plain)
   \<and> syn_args (make_function sig_default_then_plain [''return a''] None None) ! 0
       = ''x = _default_x''
   \<and> has_default_source (arg_name (sig_args sig_default_then_plain ! 1))
        (syn_args (make_function sig_default_then_plain [''return a''] None None) ! 1)"
proof -
  note inst = make_function_parameters
    [where from_annotation = any_from_annotation and body = "[''return a'']"
       and self = sig_default_then_plain and g = None and l = None and i = 0 and j = 1]
  have nd: "\<not> vs_has_default (any_from_annotation PARAMETER_EMPTY False)"
    by (simp add: any_from_annotation_def any_spec_def)
  have ann: "annotation_source name (any_from_annotation v b) = []" for name v b
    by (simp add: annotation_source_def any_from_annotation_def any_spec_def)
  from inst nd have first:
    "\<exists>built. from_callable any_from_annotation f_callable = Inr built
         \<and> syn_args (make_function built [''return a''] None None)
             = [''a'', ''b = _default_b'', ''*c'', ''d'', ''**e'']
         \<and> map_of (syn_locals (make_function built [''return a''] None None)) ''_default_b''
             = Some (PInt 2)"
    by (auto simp: ann)
  have len: "1 < length (sig_args sig_default_then_plain)"
    by (simp add: sig_default_then_plain_def Signature_def)
  have x: "syn_args (make_function sig_default_then_plain [''return a''] None None) ! 0
             = ''x = _default_x''"
    by (simp add: sig_default_then_plain_def Signature_def make_function_def append_arg_def
        set_default_def any_spec_def Let_def)
  have hx: "has_default_source (arg_name (sig_args sig_default_then_plain ! 0))
              (syn_args (make_function sig_default_then_plain [''return a''] None None) ! 0)"
    unfolding x
    by (simp add: sig_default_then_plain_def Signature_def has_default_source_def
        suffix_to_prefix)
  from inst len hx
  have "has_default_source (arg_name (sig_args sig_default_then_plain ! 1))
        (syn_args (make_function sig_default_then_plain [''return a''] None None) ! 1)"
    by simp
  with nd first len x show ?thesis by simp
qed

end
